theory Spec2Isabelle
  imports Main
begin

section \<open>The directory-access layer of DCSync (DCSync/network/LDAP.py)\<close>

text \<open>
  The class \<open>LDAP\<close> talks to a directory service through the library ldap3 and writes to a
  logger. Both are outside the repository, so the model makes them explicit:
  \<^item> every call that reaches the network or the logger appends an \<open>event\<close> to a trace, in
    program order;
  \<^item> what the network answers is read from an \<open>environment\<close>, a record of functions from
    the trace so far and the request to the answer (an answer may therefore depend on
    everything that happened before);
  \<^item> an exception, and the process exit \<open>exit(1)\<close> (Python's SystemExit), is the \<open>Inl\<close> of
    a sum; \<open>None\<close> of Python is \<open>None\<close> of an option type.
  A Python \<open>str\<close> is represented by its UTF-8 bytes, a \<open>bytes\<close> value by its bytes; both are
  HOL strings.
\<close>

subsection \<open>Python values\<close>

datatype bind_result = BindResult (result_code: int) (description: string)

datatype error =
    SystemExit int
  | LDAPSocketOpenError
  | LDAPSocketReceiveError
  | IndexError
  | KeyError
  | TypeError
  | AttributeError
  | UnicodeDecodeError
  | Exception_response bind_result
  | OtherException string

text \<open>Truth-value testing of an optional integer, an optional flag and an optional string.\<close>

fun truthy_int :: "int option \<Rightarrow> bool" where
  "truthy_int None = False"
| "truthy_int (Some n) = (n \<noteq> 0)"

fun truthy_bool :: "bool option \<Rightarrow> bool" where
  "truthy_bool None = False"
| "truthy_bool (Some b) = b"

fun truthy_str :: "string option \<Rightarrow> bool" where
  "truthy_str None = False"
| "truthy_str (Some s) = (s \<noteq> [])"

text \<open>\<open>port or d\<close> where \<open>d\<close> is a non-zero literal.\<close>

definition or_int :: "int option \<Rightarrow> int \<Rightarrow> int" where
  "or_int port d = (case port of None \<Rightarrow> d | Some p \<Rightarrow> if p \<noteq> 0 then p else d)"

text \<open>\<open>a or b\<close> on optional flags: the first operand when it is true, else the second.\<close>

definition or_bool :: "bool option \<Rightarrow> bool option \<Rightarrow> bool option" where
  "or_bool a b = (if truthy_bool a then a else b)"

text \<open>\<open>xs[i]\<close> for a non-negative literal index, and \<open>d[k]\<close> on a dictionary.\<close>

definition index :: "'a list \<Rightarrow> nat \<Rightarrow> error + 'a" where
  "index xs i = (if i < length xs then Inr (xs ! i) else Inl IndexError)"

definition getitem :: "('k \<rightharpoonup> 'v) \<Rightarrow> 'k \<Rightarrow> error + 'v" where
  "getitem d k = (case d k of None \<Rightarrow> Inl KeyError | Some v \<Rightarrow> Inr v)"

text \<open>\<open>"%d" % n\<close>: the decimal digits, with a minus sign for a negative number.\<close>

fun digits :: "nat \<Rightarrow> string" where
  "digits n = (if n < 10 then [char_of (48 + n)] else digits (n div 10) @ [char_of (48 + n mod 10)])"

definition fmt_d :: "int \<Rightarrow> string" where
  "fmt_d n = (if n < 0 then CHR ''-'' # digits (nat (- n)) else digits (nat n))"

subsection \<open>DCSync/structures/Target.py\<close>

record Target =
  remote :: string
  port :: "int option"
  method_port :: "int option"
  tlsv1_2 :: "bool option"
  tlsv1 :: "bool option"

text \<open>The constructor; the two flags are the class attributes, both \<open>None\<close>.\<close>

definition Target_init :: "string \<Rightarrow> int option \<Rightarrow> int option \<Rightarrow> Target" where
  "Target_init r p mp = \<lparr>remote = r, port = p, method_port = mp, tlsv1_2 = None, tlsv1 = None\<rparr>"

definition use_tls :: "Target \<Rightarrow> bool option" where
  "use_tls t = or_bool (tlsv1_2 t) (tlsv1 t)"

subsection \<open>Credentials, connections, requests and the environment\<close>

text \<open>
  \<open>Credentials\<close> is a class of the repository whose file is not among the sources. The
  fields are the ones \<open>LDAP\<close> reads; \<open>authenticationSecret\<close> is what the method
  \<open>getAuthenticationSecret()\<close> returns.
\<close>

record Credentials =
  domain :: string
  username :: string
  password :: string
  ntlmhash :: string
  aesKey :: string
  doKerberos :: bool
  doSimpleBind :: bool
  authenticationSecret :: string

text \<open>
  The protocol constants of Python's \<open>ssl\<close> module for the versions of TLS:
  \<open>PROTOCOL_TLSv1\<close> is TLS 1.0, \<open>PROTOCOL_TLSv1_1\<close> is TLS 1.1 and \<open>PROTOCOL_TLSv1_2\<close> is
  TLS 1.2. \<open>LDAP.py\<close> uses the first and the last.
\<close>

datatype tls_version = PROTOCOL_TLSv1 | PROTOCOL_TLSv1_1 | PROTOCOL_TLSv1_2

datatype cert_reqs = CERT_NONE

record Tls =
  validate :: cert_reqs
  version :: tls_version
  ciphers :: string

text \<open>\<open>ldap3.Server\<close>; \<open>get_info\<close> is \<open>ldap3.ALL\<close> at every call and is left out.\<close>

record Server =
  host :: string
  use_ssl :: "bool option"
  server_port :: "int option"
  tls :: "Tls option"

datatype authentication = ANONYMOUS | SIMPLE | NTLM

record Connection =
  server :: Server
  user :: "string option"
  conn_password :: "string option"
  auth :: authentication

datatype scope = BASE | SUBTREE

record search_request =
  search_base :: string
  search_filter :: string
  search_scope :: scope
  req_attributes :: "string list"
  controls :: "(string \<times> bool \<times> string) list"
  paged_size :: int
  paged_cookie :: "string option"

text \<open>
  One element of \<open>ldapConn.response\<close>: its \<open>"type"\<close>, and the dictionaries under
  \<open>"attributes"\<close> (decoded values) and \<open>"raw_attributes"\<close> (byte values).
\<close>

record entry =
  entry_type :: string
  attributes :: "string \<rightharpoonup> string list"
  raw_attributes :: "string \<rightharpoonup> string list"

text \<open>
  What a search leaves in the connection: \<open>response\<close>, and of \<open>result\<close> the entry
  \<open>"controls"\<close> (\<open>None\<close> when the key is absent), a dictionary from the control's OID to the
  cookie found under \<open>['value']['cookie']\<close>.
\<close>

record search_result =
  response :: "entry list"
  result_controls :: "(string \<times> string) list option"

text \<open>The arguments of \<open>Kerberos.kerberosLogin\<close> and of the SASL bind request.\<close>

record kerberos_args =
  krb_target :: string
  krb_username :: string
  krb_password :: string
  krb_domain :: string
  krb_ntlmhash :: string
  krb_aesKey :: string
  kdcHost :: string

record sasl_request =
  sasl_user :: string
  sasl_mechanism :: string
  sasl_credentials :: string

datatype event =
    Bind Connection
  | KerberosLogin kerberos_args
  | SaslBind Connection sasl_request
  | Search Connection search_request
  | LogDebug string
  | LogError string

record environment =
  bind_reply :: "event list \<Rightarrow> Connection \<Rightarrow> error + bind_result"
  kerberos_reply :: "event list \<Rightarrow> kerberos_args \<Rightarrow> error + string"
  sasl_reply :: "event list \<Rightarrow> Connection \<Rightarrow> sasl_request \<Rightarrow> error + bind_result"
  search_reply :: "event list \<Rightarrow> Connection \<Rightarrow> search_request \<Rightarrow> error + search_result"

subsection \<open>The class LDAP\<close>

record LDAP =
  credentials :: Credentials
  target :: Target
  namingContexts :: "string list option"
  defaultNamingContext :: "string option"
  configurationNamingContext :: "string option"
  schemaNamingContext :: "string option"
  domainDnsZonesNamingContext :: "string option"
  forestDnsZonesNamingContext :: "string option"

definition anonymous :: "Server \<Rightarrow> Connection" where
  "anonymous s = \<lparr>server = s, user = None, conn_password = None, auth = ANONYMOUS\<rparr>"

definition ldaps_server :: "LDAP \<Rightarrow> tls_version \<Rightarrow> int \<Rightarrow> Server" where
  "ldaps_server self proto p =
     \<lparr>host = remote (target self), use_ssl = Some True, server_port = Some p,
      tls = Some \<lparr>validate = CERT_NONE, version = proto, ciphers = ''ALL:@SECLEVEL=0''\<rparr>\<rparr>"

definition ldap_server :: "LDAP \<Rightarrow> int \<Rightarrow> Server" where
  "ldap_server self p =
     \<lparr>host = remote (target self), use_ssl = Some False, server_port = Some p, tls = None\<rparr>"

text \<open>\<open>__tryLDAPS\<close>: the pair \<open>(port, True)\<close>, or \<open>(None, None)\<close> when the socket cannot be opened.\<close>

definition tryLDAPS ::
  "environment \<Rightarrow> LDAP \<Rightarrow> tls_version \<Rightarrow> int option \<Rightarrow> event list
     \<Rightarrow> (error + int option \<times> bool option) \<times> event list" where
  "tryLDAPS env self proto port0 tr =
     (let p = or_int port0 636;
          ldapConn = anonymous (ldaps_server self proto p);
          r = bind_reply env tr ldapConn;
          tr1 = tr @ [Bind ldapConn]
      in if r = Inl LDAPSocketOpenError then (Inr (None, None), tr1)
         else if r = Inl LDAPSocketReceiveError then (Inr (Some p, Some True), tr1)
         else case r of
                Inl e \<Rightarrow> (Inl e, tr1)
              | Inr _ \<Rightarrow> (Inr (Some p, Some True), tr1))"

text \<open>\<open>__tryLDAP\<close>: the port, or \<open>None\<close> when the socket cannot be opened.\<close>

definition tryLDAP ::
  "environment \<Rightarrow> LDAP \<Rightarrow> int option \<Rightarrow> event list \<Rightarrow> (error + int option) \<times> event list" where
  "tryLDAP env self port0 tr =
     (let tr0 = tr @ [LogDebug ''LDAPS failed, trying with LDAP.''];
          p = or_int port0 389;
          ldapConn = anonymous (ldap_server self p);
          r = bind_reply env tr0 ldapConn;
          tr1 = tr0 @ [Bind ldapConn]
      in if r = Inl LDAPSocketOpenError then (Inr None, tr1)
         else if r = Inl LDAPSocketReceiveError then (Inr (Some p), tr1)
         else case r of
                Inl e \<Rightarrow> (Inl e, tr1)
              | Inr _ \<Rightarrow> (Inr (Some p), tr1))"

text \<open>The last statement of \<open>__getPort\<close>: no port means the target is out of reach.\<close>

definition check_port :: "LDAP \<Rightarrow> event list \<Rightarrow> (error + unit) \<times> LDAP \<times> event list" where
  "check_port self tr =
     (if method_port (target self) = None
      then (Inl (SystemExit 1), self,
            tr @ [LogError (''Impossible to communicate with the target '' @ remote (target self) @ '' !'')])
      else (Inr (), self, tr))"

text \<open>\<open>__getPort\<close>. A tuple assignment stores both components after the call has returned.\<close>

definition getPort ::
  "environment \<Rightarrow> LDAP \<Rightarrow> event list \<Rightarrow> (error + unit) \<times> LDAP \<times> event list" where
  "getPort env self tr =
     (if truthy_int (method_port (target self)) then (Inr (), self, tr)
      else case tryLDAPS env self PROTOCOL_TLSv1_2 (method_port (target self)) tr of
        (Inl e, tr1) \<Rightarrow> (Inl e, self, tr1)
      | (Inr (mp1, f1), tr1) \<Rightarrow>
          (let self1 = self\<lparr>target := (target self)\<lparr>method_port := mp1, tlsv1_2 := f1\<rparr>\<rparr>
           in if tlsv1_2 (target self1) = None
              then case tryLDAPS env self1 PROTOCOL_TLSv1 (method_port (target self1)) tr1 of
                (Inl e, tr2) \<Rightarrow> (Inl e, self1, tr2)
              | (Inr (mp2, f2), tr2) \<Rightarrow>
                  (let self2 = self1\<lparr>target := (target self1)\<lparr>method_port := mp2, tlsv1 := f2\<rparr>\<rparr>
                   in if tlsv1 (target self2) = None
                      then case tryLDAP env self2 (method_port (target self2)) tr2 of
                        (Inl e, tr3) \<Rightarrow> (Inl e, self2, tr3)
                      | (Inr mp3, tr3) \<Rightarrow>
                          check_port (self2\<lparr>target := (target self2)\<lparr>method_port := mp3\<rparr>\<rparr>) tr3
                      else check_port self2 tr2)
              else check_port self1 tr1))"

text \<open>
  \<open>kerberosAuthentication\<close>. The ticket comes from \<open>Kerberos.kerberosLogin\<close>; opening the
  connection, sending the SASL bind request and reading its single response are one step of
  the environment, whose answer is both \<open>response[0]\<close> and the connection's \<open>result\<close>.
\<close>

definition kerberosAuthentication ::
  "environment \<Rightarrow> LDAP \<Rightarrow> Connection \<Rightarrow> event list
     \<Rightarrow> (error + Connection \<times> bind_result) \<times> event list" where
  "kerberosAuthentication env self ldapConn tr =
     (let c = credentials self;
          args = \<lparr>krb_target = remote (target self), krb_username = username c,
                  krb_password = password c, krb_domain = domain c, krb_ntlmhash = ntlmhash c,
                  krb_aesKey = aesKey c, kdcHost = remote (target self)\<rparr>;
          tr1 = tr @ [KerberosLogin args]
      in case kerberos_reply env tr args of
           Inl e \<Rightarrow> (Inl e, tr1)
         | Inr blob \<Rightarrow>
             (let request = \<lparr>sasl_user = username c, sasl_mechanism = ''GSS-SPNEGO'',
                             sasl_credentials = blob\<rparr>;
                  tr2 = tr1 @ [SaslBind ldapConn request]
              in case sasl_reply env tr1 ldapConn request of
                   Inl e \<Rightarrow> (Inl e, tr2)
                 | Inr res \<Rightarrow>
                     if result_code res \<noteq> 0 then (Inl (Exception_response res), tr2)
                     else (Inr (ldapConn, res), tr2)))"

definition auth_user :: "LDAP \<Rightarrow> string" where
  "auth_user self = domain (credentials self) @ [CHR 0x5C] @ username (credentials self)"

definition auth_tls :: "Target \<Rightarrow> Tls option" where
  "auth_tls t =
     (if truthy_bool (tlsv1_2 t)
      then Some \<lparr>validate = CERT_NONE, version = PROTOCOL_TLSv1_2, ciphers = ''ALL:@SECLEVEL=0''\<rparr>
      else if truthy_bool (tlsv1 t)
      then Some \<lparr>validate = CERT_NONE, version = PROTOCOL_TLSv1, ciphers = ''ALL:@SECLEVEL=0''\<rparr>
      else None)"

definition auth_server :: "LDAP \<Rightarrow> Server" where
  "auth_server self =
     \<lparr>host = remote (target self), use_ssl = use_tls (target self),
      server_port = method_port (target self), tls = auth_tls (target self)\<rparr>"

definition auth_conn :: "LDAP \<Rightarrow> authentication \<Rightarrow> Connection" where
  "auth_conn self a =
     \<lparr>server = auth_server self, user = Some (auth_user self),
      conn_password = Some (authenticationSecret (credentials self)), auth = a\<rparr>"

text \<open>The three branches of \<open>__Authentication\<close>, up to the bound connection and its result.\<close>

definition bind_by_mechanism ::
  "environment \<Rightarrow> LDAP \<Rightarrow> event list \<Rightarrow> (error + Connection \<times> bind_result) \<times> event list" where
  "bind_by_mechanism env self tr =
     (if doKerberos (credentials self)
      then kerberosAuthentication env self (anonymous (auth_server self)) tr
      else if doSimpleBind (credentials self)
      then (let ldapConn = auth_conn self SIMPLE
            in case bind_reply env tr ldapConn of
                 Inl e \<Rightarrow> (Inl e, tr @ [Bind ldapConn])
               | Inr res \<Rightarrow> (Inr (ldapConn, res), tr @ [Bind ldapConn]))
      else (let ldapConn = auth_conn self NTLM;
                r = bind_reply env tr ldapConn
            in if r = Inl LDAPSocketReceiveError
               then (Inl (SystemExit 1),
                     tr @ [Bind ldapConn,
                           LogError ''Can't connect using NTLM, try with -simple-bind option''])
               else case r of
                      Inl e \<Rightarrow> (Inl e, tr @ [Bind ldapConn])
                    | Inr res \<Rightarrow> (Inr (ldapConn, res), tr @ [Bind ldapConn])))"

text \<open>\<open>__Authentication\<close>.\<close>

definition Authentication ::
  "environment \<Rightarrow> LDAP \<Rightarrow> event list \<Rightarrow> (error + Connection) \<times> event list" where
  "Authentication env self tr =
     (case bind_by_mechanism env self tr of
        (Inl e, tr1) \<Rightarrow> (Inl e, tr1)
      | (Inr (ldapConn, res), tr1) \<Rightarrow>
          if description res = ''invalidCredentials''
          then (Inl (SystemExit 1), tr1 @ [LogError ''Invalid credentials !''])
          else (Inr ldapConn, tr1))"

text \<open>
  The request of \<open>search\<close>. The control value \<open>"%c%c%c%c%c" % (48, 3, 2, 1, 7)\<close> is the five
  characters with these codes.
\<close>

definition sd_flags_control :: "string \<times> bool \<times> string" where
  "sd_flags_control = (''1.2.840.113556.1.4.801'', True, map char_of [48, 3, 2, 1, 7 :: nat])"

definition request ::
  "string \<Rightarrow> string \<Rightarrow> scope \<Rightarrow> string list \<Rightarrow> string option \<Rightarrow> search_request" where
  "request dn flt sc attrs cookie =
     \<lparr>search_base = dn, search_filter = flt, search_scope = sc, req_attributes = attrs,
      controls = [sd_flags_control], paged_size = 5000, paged_cookie = cookie\<rparr>"

text \<open>The cookie of the paged-results control of a result, \<open>None\<close> without controls.\<close>

definition next_cookie :: "search_result \<Rightarrow> error + string option" where
  "next_cookie res =
     (case result_controls res of
        None \<Rightarrow> Inr None
      | Some cs \<Rightarrow>
          if cs = [] then Inr None
          else (case map_of cs ''1.2.840.113556.1.4.319'' of
                  None \<Rightarrow> Inl KeyError
                | Some c \<Rightarrow> Inr (Some c)))"

text \<open>
  \<open>search\<close>. The recursion goes on for as long as the server sends a cookie, so the function
  is partial: \<open>None\<close> is a run that never returns.
\<close>

partial_function (option) search ::
  "environment \<Rightarrow> LDAP \<Rightarrow> string \<Rightarrow> string \<Rightarrow> scope \<Rightarrow> string list \<Rightarrow> string option
     \<Rightarrow> event list \<Rightarrow> ((error + entry list) \<times> event list) option" where
  "search env self dn flt sc attrs cookie tr =
     (case Authentication env self tr of
        (Inl e, tr1) \<Rightarrow> Some (Inl e, tr1)
      | (Inr ldapConn, tr1) \<Rightarrow>
          (let tr2 = tr1 @ [Search ldapConn (request dn flt sc attrs cookie)]
           in case search_reply env tr1 ldapConn (request dn flt sc attrs cookie) of
                Inl e \<Rightarrow> Some (Inl e, tr2)
              | Inr res \<Rightarrow>
                  (case next_cookie res of
                     Inl e \<Rightarrow> Some (Inl e, tr2)
                   | Inr cookie' \<Rightarrow>
                       if truthy_str cookie'
                       then Option.bind (search env self dn flt sc attrs cookie' tr2)
                              (\<lambda>(r, tr3). case r of
                                   Inl e \<Rightarrow> Some (Inl e, tr3)
                                 | Inr rest \<Rightarrow> Some (Inr (response res @ rest), tr3))
                       else Some (Inr (response res), tr2))))"







text \<open>
  The assignments of \<open>getNamingContexts\<close>, one after the other: an assignment that raises
  leaves the earlier ones in place.
\<close>

definition assign_namingContexts :: "LDAP \<Rightarrow> entry list \<Rightarrow> (error + unit) \<times> LDAP" where
  "assign_namingContexts self resp =
     (case index resp 0 of
        Inl err \<Rightarrow> (Inl err, self)
      | Inr e0 \<Rightarrow>
     (case getitem (attributes e0) ''namingContexts'' of
        Inl err \<Rightarrow> (Inl err, self)
      | Inr ncs \<Rightarrow>
     (let self0 = self\<lparr>namingContexts := Some ncs\<rparr> in
      case index ncs 0 of
        Inl err \<Rightarrow> (Inl err, self0)
      | Inr v0 \<Rightarrow>
     (let self1 = self0\<lparr>defaultNamingContext := Some v0\<rparr> in
      case index ncs 1 of
        Inl err \<Rightarrow> (Inl err, self1)
      | Inr v1 \<Rightarrow>
     (let self2 = self1\<lparr>configurationNamingContext := Some v1\<rparr> in
      case index ncs 2 of
        Inl err \<Rightarrow> (Inl err, self2)
      | Inr v2 \<Rightarrow>
     (let self3 = self2\<lparr>schemaNamingContext := Some v2\<rparr> in
      case index ncs 3 of
        Inl err \<Rightarrow> (Inl err, self3)
      | Inr v3 \<Rightarrow>
     (let self4 = self3\<lparr>domainDnsZonesNamingContext := Some v3\<rparr> in
      case index ncs 4 of
        Inl err \<Rightarrow> (Inl err, self4)
      | Inr v4 \<Rightarrow> (Inr (), self4\<lparr>forestDnsZonesNamingContext := Some v4\<rparr>))))))))"

definition getNamingContexts ::
  "environment \<Rightarrow> LDAP \<Rightarrow> event list \<Rightarrow> ((error + unit) \<times> LDAP \<times> event list) option" where
  "getNamingContexts env self tr =
     Option.bind (search env self [] ''(objectClass=*)'' BASE [''namingContexts''] None tr)
       (\<lambda>(r, tr1). case r of
            Inl e \<Rightarrow> Some (Inl e, self, tr1)
          | Inr resp \<Rightarrow>
              (case assign_namingContexts self resp of (r', self') \<Rightarrow> Some (r', self', tr1)))"





text \<open>\<open>__checkAuthentication\<close>; \<open>"%d"\<close> applied to \<open>None\<close> raises.\<close>

definition checkAuthentication ::
  "environment \<Rightarrow> LDAP \<Rightarrow> event list \<Rightarrow> ((error + unit) \<times> LDAP \<times> event list) option" where
  "checkAuthentication env self tr =
     (case method_port (target self) of
        None \<Rightarrow> Some (Inl TypeError, self, tr)
      | Some p \<Rightarrow>
          (let tr0 = tr @ [LogDebug (''Trying to connect to '' @ remote (target self) @ '':'' @ fmt_d p)]
           in case Authentication env self tr0 of
                (Inl e, tr1) \<Rightarrow> Some (Inl e, self, tr1)
              | (Inr ldapConn, tr1) \<Rightarrow>
                  Option.bind (getNamingContexts env self tr1)
                    (\<lambda>(r, self', tr2).
                        if r = Inl IndexError
                        then Some (Inl (SystemExit 1), self',
                                   tr2 @ [LogError ''Invalid credentials !''])
                        else case r of
                               Inl e \<Rightarrow> Some (Inl e, self', tr2)
                             | Inr u \<Rightarrow>
                                 Some (Inr (), self', tr2 @ [LogDebug ''Authentication success !'']))))"

text \<open>The constructor \<open>__init__\<close>, from the two arguments it stores.\<close>

definition LDAP_init ::
  "environment \<Rightarrow> Credentials \<Rightarrow> Target \<Rightarrow> event list
     \<Rightarrow> ((error + unit) \<times> LDAP \<times> event list) option" where
  "LDAP_init env creds tgt tr =
     (let self = \<lparr>credentials = creds, target = tgt, namingContexts = None,
                  defaultNamingContext = None, configurationNamingContext = None,
                  schemaNamingContext = None, domainDnsZonesNamingContext = None,
                  forestDnsZonesNamingContext = None\<rparr>
      in case getPort env self tr of
           (Inl e, self1, tr1) \<Rightarrow> Some (Inl e, self1, tr1)
         | (Inr u, self1, tr1) \<Rightarrow> checkAuthentication env self1 tr1)"

subsection \<open>Scripted environments and sample objects\<close>

text \<open>
  A server whose answers depend on the request only: \<open>b\<close> answers a bind (also a SASL bind)
  from the connection, \<open>s\<close> answers a search from the request.
\<close>

definition scripted ::
  "(Connection \<Rightarrow> error + bind_result) \<Rightarrow> (search_request \<Rightarrow> error + search_result)
     \<Rightarrow> environment" where
  "scripted b s =
     \<lparr>bind_reply = (\<lambda>tr c. b c), kerberos_reply = (\<lambda>tr a. Inr ''ticket''),
      sasl_reply = (\<lambda>tr c r. b c), search_reply = (\<lambda>tr c r. s r)\<rparr>"

definition success :: "error + bind_result" where
  "success = Inr (BindResult 0 ''success'')"

definition no_entries :: "search_request \<Rightarrow> error + search_result" where
  "no_entries r = Inr \<lparr>response = [], result_controls = None\<rparr>"

text \<open>
  A server that cannot be reached over the transports \<open>vs\<close> (a TLS version, or \<open>None\<close> for
  plaintext) and answers \<open>r\<close> to a bind over any other.
\<close>

definition refusing ::
  "tls_version option list \<Rightarrow> error + bind_result \<Rightarrow> Connection \<Rightarrow> error + bind_result" where
  "refusing vs r c =
     (if map_option version (tls (server c)) \<in> set vs then Inl LDAPSocketOpenError else r)"

definition sample_creds :: "bool \<Rightarrow> bool \<Rightarrow> Credentials" where
  "sample_creds krb simple =
     \<lparr>domain = ''CORP'', username = ''alice'', password = ''secret'', ntlmhash = [],
      aesKey = [], doKerberos = krb, doSimpleBind = simple, authenticationSecret = ''secret''\<rparr>"

definition sample_ldap :: "Credentials \<Rightarrow> Target \<Rightarrow> LDAP" where
  "sample_ldap creds tgt =
     \<lparr>credentials = creds, target = tgt, namingContexts = None, defaultNamingContext = None,
      configurationNamingContext = None, schemaNamingContext = None,
      domainDnsZonesNamingContext = None, forestDnsZonesNamingContext = None\<rparr>"

definition fresh :: LDAP where
  "fresh = sample_ldap (sample_creds False False) (Target_init ''dc01'' None None)"

definition with_port :: LDAP where
  "with_port = sample_ldap (sample_creds False True) (Target_init ''dc01'' None (Some 3268))"

subsection \<open>The candidates of the negotiation\<close>

definition tls12_candidate :: "LDAP \<Rightarrow> Connection" where
  "tls12_candidate self = anonymous (ldaps_server self PROTOCOL_TLSv1_2 636)"

definition tlsv1_candidate :: "LDAP \<Rightarrow> Connection" where
  "tlsv1_candidate self = anonymous (ldaps_server self PROTOCOL_TLSv1 636)"

definition plain_candidate :: "LDAP \<Rightarrow> Connection" where
  "plain_candidate self = anonymous (ldap_server self 389)"

text \<open>
  The outcome of a candidate's anonymous bind: the socket could not be opened, or the bind
  returned or failed only when its response was read.
\<close>

definition handshake_failed :: "error + bind_result \<Rightarrow> bool" where
  "handshake_failed r = (r = Inl LDAPSocketOpenError)"

definition usable :: "error + bind_result \<Rightarrow> bool" where
  "usable r = (case r of Inl e \<Rightarrow> e = LDAPSocketReceiveError | Inr res \<Rightarrow> True)"

fun is_Bind :: "event \<Rightarrow> bool" where
  "is_Bind (Bind c) = True"
| "is_Bind e = False"

text \<open>The target after a negotiation that found \<open>p\<close>, with the flags \<open>f12\<close> and \<open>f11\<close>.\<close>

definition negotiated :: "LDAP \<Rightarrow> int \<Rightarrow> bool option \<Rightarrow> bool option \<Rightarrow> LDAP" where
  "negotiated self p f12 f11 =
     self\<lparr>target := (target self)\<lparr>method_port := Some p, tlsv1_2 := f12, tlsv1 := f11\<rparr>\<rparr>"

text \<open>
  What the environment answers to the three candidates, each asked after the ones before it
  (with a target that has no port yet).
\<close>

definition reply1 :: "environment \<Rightarrow> LDAP \<Rightarrow> event list \<Rightarrow> error + bind_result" where
  "reply1 env self tr = bind_reply env tr (tls12_candidate self)"

definition reply2 :: "environment \<Rightarrow> LDAP \<Rightarrow> event list \<Rightarrow> error + bind_result" where
  "reply2 env self tr =
     bind_reply env (tr @ [Bind (tls12_candidate self)]) (tlsv1_candidate self)"

definition reply3 :: "environment \<Rightarrow> LDAP \<Rightarrow> event list \<Rightarrow> error + bind_result" where
  "reply3 env self tr =
     bind_reply env
       (tr @ [Bind (tls12_candidate self), Bind (tlsv1_candidate self),
              LogDebug ''LDAPS failed, trying with LDAP.''])
       (plain_candidate self)"

text \<open>The connection of an event that reaches the network over one.\<close>

fun event_conn :: "event \<Rightarrow> Connection option" where
  "event_conn (Bind c) = Some c"
| "event_conn (SaslBind c r) = Some c"
| "event_conn (Search c r) = Some c"
| "event_conn e = None"

text \<open>The plaintext server on the port of the target, as \<open>__Authentication\<close> builds it.\<close>

definition plaintext_server :: "LDAP \<Rightarrow> Server" where
  "plaintext_server self =
     \<lparr>host = remote (target self), use_ssl = None, server_port = method_port (target self),
      tls = None\<rparr>"

fun is_Search :: "event \<Rightarrow> bool" where
  "is_Search (Search c r) = True"
| "is_Search e = False"

text \<open>The ticket request and the SASL bind request of \<open>kerberosAuthentication\<close>.\<close>

definition krb_args :: "LDAP \<Rightarrow> kerberos_args" where
  "krb_args self =
     \<lparr>krb_target = remote (target self), krb_username = username (credentials self),
      krb_password = password (credentials self), krb_domain = domain (credentials self),
      krb_ntlmhash = ntlmhash (credentials self), krb_aesKey = aesKey (credentials self),
      kdcHost = remote (target self)\<rparr>"

definition spnego_request :: "LDAP \<Rightarrow> string \<Rightarrow> sasl_request" where
  "spnego_request self blob =
     \<lparr>sasl_user = username (credentials self), sasl_mechanism = ''GSS-SPNEGO'',
      sasl_credentials = blob\<rparr>"

text \<open>Sample objects for the three mechanisms, after a negotiation that chose TLS 1.2.\<close>

definition negotiated_target :: Target where
  "negotiated_target =
     \<lparr>remote = ''dc01'', port = None, method_port = Some 636, tlsv1_2 = Some True,
      tlsv1 = None\<rparr>"

definition ntlm_user :: LDAP where
  "ntlm_user = sample_ldap (sample_creds False False) negotiated_target"

definition simple_user :: LDAP where
  "simple_user = sample_ldap (sample_creds False True) negotiated_target"

definition kerberos_user :: LDAP where
  "kerberos_user = sample_ldap (sample_creds True False) negotiated_target"

definition rejected :: "error + bind_result" where
  "rejected = Inr (BindResult 49 ''invalidCredentials'')"


subsection \<open>Runs of a paged search\<close>

text \<open>
  A run of \<open>search\<close> that asks for the pages \<open>rs\<close>, one round trip each, every page but the
  last one carrying a non-empty cookie that the next round trip sends back.
\<close>

inductive paged ::
  "environment \<Rightarrow> LDAP \<Rightarrow> string \<Rightarrow> string \<Rightarrow> scope \<Rightarrow> string list \<Rightarrow> string option
     \<Rightarrow> event list \<Rightarrow> search_result list \<Rightarrow> event list \<Rightarrow> bool" where
  last_page:
    "Authentication env self tr = (Inr c, tr1) \<Longrightarrow>
     search_reply env tr1 c (request dn flt sc attrs cookie) = Inr res \<Longrightarrow>
     next_cookie res = Inr ck \<Longrightarrow> \<not> truthy_str ck \<Longrightarrow>
     paged env self dn flt sc attrs cookie tr [res]
       (tr1 @ [Search c (request dn flt sc attrs cookie)])"
| next_page:
    "Authentication env self tr = (Inr c, tr1) \<Longrightarrow>
     search_reply env tr1 c (request dn flt sc attrs cookie) = Inr res \<Longrightarrow>
     next_cookie res = Inr ck \<Longrightarrow> truthy_str ck \<Longrightarrow>
     paged env self dn flt sc attrs ck (tr1 @ [Search c (request dn flt sc attrs cookie)]) rs tr' \<Longrightarrow>
     paged env self dn flt sc attrs cookie tr (res # rs) tr'"

text \<open>The search requests of a trace, in order, with their connections.\<close>

fun searches :: "event list \<Rightarrow> (Connection \<times> search_request) list" where
  "searches [] = []"
| "searches (Search c q # es) = (c, q) # searches es"
| "searches (e # es) = searches es"

text \<open>
  Whether an event is a bind (plain or SASL) on the connection \<open>c\<close>, and whether every search
  request of a trace comes right after a bind on its own connection (\<open>prev\<close> is the event
  before the trace, if any).
\<close>

fun binds :: "Connection \<Rightarrow> event option \<Rightarrow> bool" where
  "binds c (Some (Bind c')) = (c' = c)"
| "binds c (Some (SaslBind c' q)) = (c' = c)"
| "binds c e = False"

fun bound_before_search :: "event option \<Rightarrow> event list \<Rightarrow> bool" where
  "bound_before_search prev [] = True"
| "bound_before_search prev (Search c q # es) =
     (binds c prev \<and> bound_before_search (Some (Search c q)) es)"
| "bound_before_search prev (e # es) = bound_before_search (Some e) es"

text \<open>
  Whether every search request of a trace is the one that \<open>search\<close> builds from the base,
  the filter, the scope and the attributes, with some cookie.
\<close>

definition page_requests :: "string \<Rightarrow> string \<Rightarrow> scope \<Rightarrow> string list \<Rightarrow> event list \<Rightarrow> bool" where
  "page_requests dn flt sc attrs evs =
     list_all (\<lambda>(c, q). q = request dn flt sc attrs (paged_cookie q)) (searches evs)"

text \<open>
  The value of the control LDAP_SERVER_SD_FLAGS_OID as its ASN.1 layout defines it,
  \<open>SEQUENCE { Flags INTEGER }\<close> in BER, for flags below 128: the tag of a sequence (48), its
  length (3), the tag of an integer (2), its length (1), the flags. The flags are the sum of
  the components asked for.
\<close>

definition OWNER_SECURITY_INFORMATION :: nat where
  "OWNER_SECURITY_INFORMATION = 1"

definition GROUP_SECURITY_INFORMATION :: nat where
  "GROUP_SECURITY_INFORMATION = 2"

definition DACL_SECURITY_INFORMATION :: nat where
  "DACL_SECURITY_INFORMATION = 4"

definition sd_flags_value :: "nat \<Rightarrow> string" where
  "sd_flags_value flags = [char_of (48::nat), char_of (3::nat), char_of (2::nat), char_of (1::nat), char_of flags]"

text \<open>
  Servers for a search: one whose search fails, one whose result holds a control other than
  the paged-results control, and one that sends three entries and the cookie \<open>C1\<close>, then two
  entries and no cookie.
\<close>

definition sample_entry :: "string \<Rightarrow> entry" where
  "sample_entry name =
     \<lparr>entry_type = ''searchResEntry'', attributes = Map.empty,
      raw_attributes = [''sAMAccountName'' \<mapsto> [name]]\<rparr>"

definition page1 :: search_result where
  "page1 = \<lparr>response = [sample_entry ''u1'', sample_entry ''u2'', sample_entry ''u3''],
            result_controls = Some [(''1.2.840.113556.1.4.319'', ''C1'')]\<rparr>"

definition page2 :: search_result where
  "page2 = \<lparr>response = [sample_entry ''u4'', sample_entry ''u5''], result_controls = None\<rparr>"

definition failing_search :: "search_request \<Rightarrow> error + search_result" where
  "failing_search q = Inl (OtherException ''busy'')"

definition foreign_control :: "search_request \<Rightarrow> error + search_result" where
  "foreign_control q = Inr \<lparr>response = [], result_controls = Some [(''1.2.840.113556.1.4.473'', [])]\<rparr>"

definition two_pages :: "search_request \<Rightarrow> error + search_result" where
  "two_pages q =
     (if paged_cookie q = None then Inr page1
      else if paged_cookie q = Some ''C1'' then Inr page2
      else Inl (OtherException ''unknown cookie''))"

subsection \<open>Entries of a response\<close>




text \<open>The object after \<open>getNamingContexts\<close> has stored the values \<open>ncs\<close>, five at least.\<close>

definition with_namingContexts :: "LDAP \<Rightarrow> string list \<Rightarrow> LDAP" where
  "with_namingContexts self ncs =
     self\<lparr>namingContexts := Some ncs,
          defaultNamingContext := Some (ncs ! 0),
          configurationNamingContext := Some (ncs ! 1),
          schemaNamingContext := Some (ncs ! 2),
          domainDnsZonesNamingContext := Some (ncs ! 3),
          forestDnsZonesNamingContext := Some (ncs ! 4)\<rparr>"

text \<open>The first event of \<open>__checkAuthentication\<close>.\<close>

definition trying :: "LDAP \<Rightarrow> int \<Rightarrow> event" where
  "trying self p = LogDebug (''Trying to connect to '' @ remote (target self) @ '':'' @ fmt_d p)"

text \<open>Sample responses: the root entry with its naming contexts, and a list of accounts.\<close>

definition root_entry :: "string list \<Rightarrow> entry" where
  "root_entry ncs =
     \<lparr>entry_type = ''searchResEntry'', attributes = [''namingContexts'' \<mapsto> ncs],
      raw_attributes = [''namingContexts'' \<mapsto> ncs]\<rparr>"

definition five_contexts :: "string list" where
  "five_contexts =
     [''DC=corp'', ''CN=Configuration,DC=corp'', ''CN=Schema,CN=Configuration,DC=corp'',
      ''DC=DomainDnsZones,DC=corp'', ''DC=ForestDnsZones,DC=corp'']"

definition three_contexts :: "string list" where
  "three_contexts =
     [''DC=corp'', ''CN=Configuration,DC=corp'', ''CN=Schema,CN=Configuration,DC=corp'']"

definition one_page :: "entry list \<Rightarrow> search_request \<Rightarrow> error + search_result" where
  "one_page es q = Inr \<lparr>response = es, result_controls = None\<rparr>"


definition known_domain :: LDAP where
  "known_domain = with_namingContexts ntlm_user five_contexts"

section \<open>Properties\<close>

declare digits.simps [simp del]

lemmas sample_defs = fresh_def with_port_def sample_ldap_def sample_creds_def Target_init_def
  scripted_def refusing_def success_def reply1_def reply2_def reply3_def tls12_candidate_def
  tlsv1_candidate_def plain_candidate_def anonymous_def ldaps_server_def ldap_server_def
  handshake_failed_def usable_def negotiated_def

subsection \<open>Transport negotiation\<close>

lemma tryLDAPS_cases:
  "tryLDAPS env self proto port0 tr =
     (let c = anonymous (ldaps_server self proto (or_int port0 636));
          r = bind_reply env tr c
      in (if handshake_failed r then Inr (None, None)
          else if usable r then Inr (Some (or_int port0 636), Some True)
          else Inl (projl r), tr @ [Bind c]))"
  by (auto simp: tryLDAPS_def Let_def handshake_failed_def usable_def split: sum.splits)

lemma tryLDAP_cases:
  "tryLDAP env self port0 tr =
     (let c = anonymous (ldap_server self (or_int port0 389));
          tr0 = tr @ [LogDebug ''LDAPS failed, trying with LDAP.''];
          r = bind_reply env tr0 c
      in (if handshake_failed r then Inr None
          else if usable r then Inr (Some (or_int port0 389))
          else Inl (projl r), tr0 @ [Bind c]))"
  by (auto simp: tryLDAP_def Let_def handshake_failed_def usable_def split: sum.splits)

lemma candidates_remote:
  "remote (target self') = remote (target self) \<Longrightarrow>
     anonymous (ldaps_server self' PROTOCOL_TLSv1 636) = tlsv1_candidate self
   \<and> anonymous (ldap_server self' 389) = plain_candidate self"
  by (simp add: ldaps_server_def ldap_server_def tlsv1_candidate_def plain_candidate_def)

lemma or_int_falsy: "\<not> truthy_int p \<Longrightarrow> or_int p d = d"
  by (cases p) (auto simp: or_int_def)


lemma getPort_first:
  assumes "\<not> truthy_int (method_port (target self))" "usable (reply1 env self tr)"
  shows "getPort env self tr =
              (Inr (), negotiated self 636 (Some True) (tlsv1 (target self)),
               tr @ [Bind (tls12_candidate self)])"
proof -
  have nf: "\<not> handshake_failed (reply1 env self tr)"
    using assms(2) by (auto simp: usable_def handshake_failed_def)
  have t: "tryLDAPS env self PROTOCOL_TLSv1_2 (method_port (target self)) tr
         = (Inr (Some 636, Some True), tr @ [Bind (tls12_candidate self)])"
    using assms nf
    by (simp add: tryLDAPS_cases Let_def or_int_falsy reply1_def tls12_candidate_def)
  show ?thesis
    using assms(1) by (simp add: getPort_def t check_port_def negotiated_def)
qed


lemma tryLDAPS_12:
  assumes "\<not> truthy_int (method_port (target self))"
  shows "tryLDAPS env self PROTOCOL_TLSv1_2 (method_port (target self)) tr =
     (if handshake_failed (reply1 env self tr) then Inr (None, None)
      else if usable (reply1 env self tr) then Inr (Some 636, Some True)
      else Inl (projl (reply1 env self tr)), tr @ [Bind (tls12_candidate self)])"
  using assms
  by (simp add: tryLDAPS_cases Let_def or_int_falsy reply1_def tls12_candidate_def)

lemma tryLDAPS_v1:
  assumes "remote (target self') = remote (target self)"
  shows "tryLDAPS env self' PROTOCOL_TLSv1 None (tr @ [Bind (tls12_candidate self)]) =
     (if handshake_failed (reply2 env self tr) then Inr (None, None)
      else if usable (reply2 env self tr) then Inr (Some 636, Some True)
      else Inl (projl (reply2 env self tr)),
      tr @ [Bind (tls12_candidate self), Bind (tlsv1_candidate self)])"
  using assms candidates_remote [OF assms(1)]
  by (simp add: tryLDAPS_cases Let_def or_int_def reply2_def)

lemma tryLDAP_plain:
  assumes "remote (target self') = remote (target self)"
  shows "tryLDAP env self' None
           (tr @ [Bind (tls12_candidate self), Bind (tlsv1_candidate self)]) =
     (if handshake_failed (reply3 env self tr) then Inr None
      else if usable (reply3 env self tr) then Inr (Some 389)
      else Inl (projl (reply3 env self tr)),
      tr @ [Bind (tls12_candidate self), Bind (tlsv1_candidate self),
            LogDebug ''LDAPS failed, trying with LDAP.'', Bind (plain_candidate self)])"
  using assms candidates_remote [OF assms(1)]
  by (simp add: tryLDAP_cases Let_def or_int_def reply3_def)

lemma getPort_second:
  assumes "\<not> truthy_int (method_port (target self))"
    "handshake_failed (reply1 env self tr)" "usable (reply2 env self tr)"
  shows "getPort env self tr =
              (Inr (), negotiated self 636 None (Some True),
               tr @ [Bind (tls12_candidate self), Bind (tlsv1_candidate self)])"
proof -
  have nf: "\<not> handshake_failed (reply2 env self tr)"
    using assms(3) by (auto simp: usable_def handshake_failed_def)
  show ?thesis
    using assms nf
    by (simp add: getPort_def tryLDAPS_12 tryLDAPS_v1 check_port_def negotiated_def Let_def)
qed

lemma getPort_third:
  assumes "\<not> truthy_int (method_port (target self))"
    "handshake_failed (reply1 env self tr)" "handshake_failed (reply2 env self tr)"
    "usable (reply3 env self tr)"
  shows "getPort env self tr =
              (Inr (), negotiated self 389 None None,
               tr @ [Bind (tls12_candidate self), Bind (tlsv1_candidate self),
                     LogDebug ''LDAPS failed, trying with LDAP.'', Bind (plain_candidate self)])"
proof -
  have nf: "\<not> handshake_failed (reply3 env self tr)"
    using assms(4) by (auto simp: usable_def handshake_failed_def)
  show ?thesis
    using assms nf
    by (simp add: getPort_def tryLDAPS_12 tryLDAPS_v1 tryLDAP_plain check_port_def negotiated_def Let_def)
qed

lemma getPort_trace:
  assumes "\<not> truthy_int (method_port (target self))"
  shows "snd (snd (getPort env self tr)) =
     tr @ (if handshake_failed (reply1 env self tr)
           then if handshake_failed (reply2 env self tr)
                then [Bind (tls12_candidate self), Bind (tlsv1_candidate self),
                      LogDebug ''LDAPS failed, trying with LDAP.'', Bind (plain_candidate self)]
                     @ (if handshake_failed (reply3 env self tr)
                        then [LogError (''Impossible to communicate with the target ''
                                         @ remote (target self) @ '' !'')]
                        else [])
                else [Bind (tls12_candidate self), Bind (tlsv1_candidate self)]
           else [Bind (tls12_candidate self)])"
  using assms
  by (simp add: getPort_def tryLDAPS_12 tryLDAPS_v1 tryLDAP_plain check_port_def Let_def)


lemma candidates_explicit:
  "tls12_candidate self =
     \<lparr>server = \<lparr>host = remote (target self), use_ssl = Some True, server_port = Some 636,
                tls = Some \<lparr>validate = CERT_NONE, version = PROTOCOL_TLSv1_2,
                            ciphers = ''ALL:@SECLEVEL=0''\<rparr>\<rparr>,
      user = None, conn_password = None, auth = ANONYMOUS\<rparr>
   \<and> tlsv1_candidate self =
     \<lparr>server = \<lparr>host = remote (target self), use_ssl = Some True, server_port = Some 636,
                tls = Some \<lparr>validate = CERT_NONE, version = PROTOCOL_TLSv1,
                            ciphers = ''ALL:@SECLEVEL=0''\<rparr>\<rparr>,
      user = None, conn_password = None, auth = ANONYMOUS\<rparr>
   \<and> plain_candidate self =
     \<lparr>server = \<lparr>host = remote (target self), use_ssl = Some False, server_port = Some 389,
                tls = None\<rparr>,
      user = None, conn_password = None, auth = ANONYMOUS\<rparr>"
  by (simp add: tls12_candidate_def tlsv1_candidate_def plain_candidate_def anonymous_def
      ldaps_server_def ldap_server_def)

text \<open>
  C1. A target without a port of its own (\<open>None\<close>, or the falsy \<open>0\<close>) is probed with at most
  three anonymous binds, always in this order: TLS 1.2 (\<open>PROTOCOL_TLSv1_2\<close>) on port 636,
  TLS 1.0 (\<open>PROTOCOL_TLSv1\<close>) on port 636, plaintext on port 389, each to the host of the
  target. The first usable candidate ends the negotiation: the trace holds no bind after it.
  When both TLS candidates fail to open their socket and the plaintext bind is usable, the
  port is 389 and both flags are unset (\<open>None\<close>).
\<close>

theorem negotiation_order:
  assumes "\<not> truthy_int (method_port (target self))"
  shows "tls12_candidate self =
           \<lparr>server = \<lparr>host = remote (target self), use_ssl = Some True, server_port = Some 636,
                      tls = Some \<lparr>validate = CERT_NONE, version = PROTOCOL_TLSv1_2,
                                  ciphers = ''ALL:@SECLEVEL=0''\<rparr>\<rparr>,
            user = None, conn_password = None, auth = ANONYMOUS\<rparr>
       \<and> tlsv1_candidate self =
           \<lparr>server = \<lparr>host = remote (target self), use_ssl = Some True, server_port = Some 636,
                      tls = Some \<lparr>validate = CERT_NONE, version = PROTOCOL_TLSv1,
                                  ciphers = ''ALL:@SECLEVEL=0''\<rparr>\<rparr>,
            user = None, conn_password = None, auth = ANONYMOUS\<rparr>
       \<and> plain_candidate self =
           \<lparr>server = \<lparr>host = remote (target self), use_ssl = Some False, server_port = Some 389,
                      tls = None\<rparr>,
            user = None, conn_password = None, auth = ANONYMOUS\<rparr>
       \<and> (usable (reply1 env self tr) \<longrightarrow>
            getPort env self tr =
              (Inr (), negotiated self 636 (Some True) (tlsv1 (target self)),
               tr @ [Bind (tls12_candidate self)]))
       \<and> (handshake_failed (reply1 env self tr) \<and> usable (reply2 env self tr) \<longrightarrow>
            getPort env self tr =
              (Inr (), negotiated self 636 None (Some True),
               tr @ [Bind (tls12_candidate self), Bind (tlsv1_candidate self)]))
       \<and> (handshake_failed (reply1 env self tr) \<and> handshake_failed (reply2 env self tr)
            \<and> usable (reply3 env self tr) \<longrightarrow>
            getPort env self tr =
              (Inr (), negotiated self 389 None None,
               tr @ [Bind (tls12_candidate self), Bind (tlsv1_candidate self),
                     LogDebug ''LDAPS failed, trying with LDAP.'', Bind (plain_candidate self)])
          \<and> method_port (target (negotiated self 389 None None)) = Some 389
          \<and> tlsv1_2 (target (negotiated self 389 None None)) = None
          \<and> tlsv1 (target (negotiated self 389 None None)) = None)
       \<and> (\<exists>evs. snd (snd (getPort env self tr)) = tr @ evs
             \<and> filter is_Bind evs \<in>
                 {[Bind (tls12_candidate self)],
                  [Bind (tls12_candidate self), Bind (tlsv1_candidate self)],
                  [Bind (tls12_candidate self), Bind (tlsv1_candidate self),
                   Bind (plain_candidate self)]})"
proof -
  have order: "\<exists>evs. snd (snd (getPort env self tr)) = tr @ evs
             \<and> filter is_Bind evs \<in>
                 {[Bind (tls12_candidate self)],
                  [Bind (tls12_candidate self), Bind (tlsv1_candidate self)],
                  [Bind (tls12_candidate self), Bind (tlsv1_candidate self),
                   Bind (plain_candidate self)]}"
    unfolding getPort_trace [OF assms] by (rule exI, rule conjI, rule refl) simp
  have flags: "method_port (target (negotiated self 389 None None)) = Some 389
          \<and> tlsv1_2 (target (negotiated self 389 None None)) = None
          \<and> tlsv1 (target (negotiated self 389 None None)) = None"
    by (simp add: negotiated_def)
  show ?thesis
    using assms candidates_explicit [of self] order flags
    by (simp add: getPort_first getPort_second getPort_third)
qed

text \<open>
  C4. For each of the three candidates, a bind that fails when its response is read
  (\<open>LDAPSocketReceiveError\<close>, the socket being open) counts as a success: the negotiation
  stops there with that candidate's port, and with its flag for a TLS candidate; the next
  candidate is not tried.
\<close>

theorem receive_failure_is_success:
  assumes "\<not> truthy_int (method_port (target self))"
  shows "(reply1 env self tr = Inl LDAPSocketReceiveError \<longrightarrow>
            getPort env self tr =
              (Inr (), negotiated self 636 (Some True) (tlsv1 (target self)),
               tr @ [Bind (tls12_candidate self)]))
       \<and> (handshake_failed (reply1 env self tr)
            \<and> reply2 env self tr = Inl LDAPSocketReceiveError \<longrightarrow>
            getPort env self tr =
              (Inr (), negotiated self 636 None (Some True),
               tr @ [Bind (tls12_candidate self), Bind (tlsv1_candidate self)]))
       \<and> (handshake_failed (reply1 env self tr) \<and> handshake_failed (reply2 env self tr)
            \<and> reply3 env self tr = Inl LDAPSocketReceiveError \<longrightarrow>
            getPort env self tr =
              (Inr (), negotiated self 389 None None,
               tr @ [Bind (tls12_candidate self), Bind (tlsv1_candidate self),
                     LogDebug ''LDAPS failed, trying with LDAP.'', Bind (plain_candidate self)]))"
  using assms
  by (simp add: getPort_first getPort_second getPort_third usable_def)

lemma bind_by_mechanism_trace:
  "\<exists>evs. snd (bind_by_mechanism env self tr) = tr @ evs
      \<and> (\<forall>e\<in>set evs. \<forall>c. event_conn e = Some c \<longrightarrow> server c = auth_server self)"
proof (cases "doKerberos (credentials self)")
  case True
  then show ?thesis
    by (auto simp: bind_by_mechanism_def kerberosAuthentication_def Let_def anonymous_def
        split: sum.splits)
next
  case False
  then show ?thesis
    by (auto simp: bind_by_mechanism_def Let_def auth_conn_def split: sum.splits)
qed

lemma Authentication_trace:
  "\<exists>evs. snd (Authentication env self tr) = tr @ evs
      \<and> (\<forall>e\<in>set evs. \<forall>c. event_conn e = Some c \<longrightarrow> server c = auth_server self)"
proof -
  obtain evs where e: "snd (bind_by_mechanism env self tr) = tr @ evs"
    "\<forall>e\<in>set evs. \<forall>c. event_conn e = Some c \<longrightarrow> server c = auth_server self"
    using bind_by_mechanism_trace by blast
  obtain r tr1 where b: "bind_by_mechanism env self tr = (r, tr1)"
    by (cases "bind_by_mechanism env self tr")
  with e have tr1: "tr1 = tr @ evs" by simp
  show ?thesis
    using e(2) by (auto simp: Authentication_def b tr1 split: sum.splits)
qed

text \<open>
  C5. With a port supplied by the caller (a true value of \<open>method_port\<close>, that is a port
  other than 0), \<open>__getPort\<close> returns at once: no event, the object unchanged. With the flags
  unset as the constructor leaves them, \<open>use_tls\<close> is \<open>None\<close> and every connection that
  \<open>__Authentication\<close> makes afterwards goes to the plaintext server on that port, whatever
  the environment answers.
\<close>

theorem supplied_port_skips_negotiation:
  assumes "truthy_int (method_port (target self))"
  shows "getPort env self tr = (Inr (), self, tr)
       \<and> (tlsv1_2 (target self) = None \<and> tlsv1 (target self) = None \<longrightarrow>
            use_tls (target self) = None
          \<and> (\<forall>tr1. \<exists>evs. snd (Authentication env self tr1) = tr1 @ evs
                \<and> (\<forall>e\<in>set evs. \<forall>c. event_conn e = Some c \<longrightarrow> server c = plaintext_server self)))"
proof -
  have "auth_server self = plaintext_server self"
    if "tlsv1_2 (target self) = None" "tlsv1 (target self) = None"
    using that by (simp add: auth_server_def plaintext_server_def use_tls_def or_bool_def auth_tls_def)
  then show ?thesis
    using assms Authentication_trace [of env self]
    by (auto simp: getPort_def use_tls_def or_bool_def)
qed


theorem negotiation_order_witness:
  "\<not> truthy_int (method_port (target fresh))
   \<and> usable (reply1 (scripted (refusing [] success) no_entries) fresh [])
   \<and> getPort (scripted (refusing [] success) no_entries) fresh [] =
       (Inr (), negotiated fresh 636 (Some True) None, [Bind (tls12_candidate fresh)])
   \<and> handshake_failed (reply1 (scripted (refusing [Some PROTOCOL_TLSv1_2] success) no_entries) fresh [])
   \<and> usable (reply2 (scripted (refusing [Some PROTOCOL_TLSv1_2] success) no_entries) fresh [])
   \<and> getPort (scripted (refusing [Some PROTOCOL_TLSv1_2] success) no_entries) fresh [] =
       (Inr (), negotiated fresh 636 None (Some True),
        [Bind (tls12_candidate fresh), Bind (tlsv1_candidate fresh)])
   \<and> handshake_failed (reply1 (scripted (refusing [Some PROTOCOL_TLSv1_2, Some PROTOCOL_TLSv1] success) no_entries) fresh [])
   \<and> handshake_failed (reply2 (scripted (refusing [Some PROTOCOL_TLSv1_2, Some PROTOCOL_TLSv1] success) no_entries) fresh [])
   \<and> usable (reply3 (scripted (refusing [Some PROTOCOL_TLSv1_2, Some PROTOCOL_TLSv1] success) no_entries) fresh [])
   \<and> getPort (scripted (refusing [Some PROTOCOL_TLSv1_2, Some PROTOCOL_TLSv1] success) no_entries) fresh [] =
       (Inr (), negotiated fresh 389 None None,
        [Bind (tls12_candidate fresh), Bind (tlsv1_candidate fresh),
         LogDebug ''LDAPS failed, trying with LDAP.'', Bind (plain_candidate fresh)])
   \<and> method_port (target (negotiated fresh 389 None None)) = Some 389
   \<and> tlsv1_2 (target (negotiated fresh 389 None None)) = None
   \<and> tlsv1 (target (negotiated fresh 389 None None)) = None
   \<and> server (plain_candidate fresh) =
       \<lparr>host = ''dc01'', use_ssl = Some False, server_port = Some 389, tls = None\<rparr>
   \<and> server (tlsv1_candidate fresh) =
       \<lparr>host = ''dc01'', use_ssl = Some True, server_port = Some 636,
        tls = Some \<lparr>validate = CERT_NONE, version = PROTOCOL_TLSv1,
                    ciphers = ''ALL:@SECLEVEL=0''\<rparr>\<rparr>"
  using negotiation_order [of fresh "scripted (refusing [] success) no_entries" "[]"]
    negotiation_order [of fresh "scripted (refusing [Some PROTOCOL_TLSv1_2] success) no_entries" "[]"]
    negotiation_order [of fresh "scripted (refusing [Some PROTOCOL_TLSv1_2, Some PROTOCOL_TLSv1] success) no_entries" "[]"]
  by (simp add: sample_defs)

text \<open>
  Against a server that refuses the sockets of TLS 1.2 and TLS 1.0 and accepts plaintext,
  the negotiation never tries TLS 1.1, and it leaves the two flags unset, not false.
\<close>

theorem negotiation_order_counterexample:
  "getPort (scripted (refusing [Some PROTOCOL_TLSv1_2, Some PROTOCOL_TLSv1] success) no_entries)
      fresh [] =
     (Inr (), negotiated fresh 389 None None,
      [Bind (tls12_candidate fresh), Bind (tlsv1_candidate fresh),
       LogDebug ''LDAPS failed, trying with LDAP.'', Bind (plain_candidate fresh)])
   \<and> Bind (anonymous (ldaps_server fresh PROTOCOL_TLSv1_1 636)) \<notin>
       set (snd (snd (getPort
         (scripted (refusing [Some PROTOCOL_TLSv1_2, Some PROTOCOL_TLSv1] success) no_entries)
         fresh [])))
   \<and> version (the (tls (server (tlsv1_candidate fresh)))) \<noteq> PROTOCOL_TLSv1_1
   \<and> tlsv1_2 (target (fst (snd (getPort
         (scripted (refusing [Some PROTOCOL_TLSv1_2, Some PROTOCOL_TLSv1] success) no_entries)
         fresh [])))) \<noteq> Some False
   \<and> tlsv1 (target (fst (snd (getPort
         (scripted (refusing [Some PROTOCOL_TLSv1_2, Some PROTOCOL_TLSv1] success) no_entries)
         fresh [])))) \<noteq> Some False"
proof -
  have f: "\<not> truthy_int (method_port (target fresh))"
    by (simp add: sample_defs)
  have g: "getPort (scripted (refusing [Some PROTOCOL_TLSv1_2, Some PROTOCOL_TLSv1] success) no_entries)
      fresh [] =
     (Inr (), negotiated fresh 389 None None,
      [Bind (tls12_candidate fresh), Bind (tlsv1_candidate fresh),
       LogDebug ''LDAPS failed, trying with LDAP.'', Bind (plain_candidate fresh)])"
    using getPort_third [OF f, of "scripted (refusing [Some PROTOCOL_TLSv1_2, Some PROTOCOL_TLSv1] success) no_entries" "[]"]
    by (simp add: sample_defs)
  show ?thesis
    unfolding g by (simp add: sample_defs)
qed

theorem receive_failure_is_success_witness:
  "\<not> truthy_int (method_port (target fresh))
   \<and> reply1 (scripted (refusing [] (Inl LDAPSocketReceiveError)) no_entries) fresh []
       = Inl LDAPSocketReceiveError
   \<and> getPort (scripted (refusing [] (Inl LDAPSocketReceiveError)) no_entries) fresh [] =
       (Inr (), negotiated fresh 636 (Some True) None, [Bind (tls12_candidate fresh)])
   \<and> handshake_failed (reply1 (scripted (refusing [Some PROTOCOL_TLSv1_2] (Inl LDAPSocketReceiveError)) no_entries) fresh [])
   \<and> reply2 (scripted (refusing [Some PROTOCOL_TLSv1_2] (Inl LDAPSocketReceiveError)) no_entries) fresh []
       = Inl LDAPSocketReceiveError
   \<and> getPort (scripted (refusing [Some PROTOCOL_TLSv1_2] (Inl LDAPSocketReceiveError)) no_entries) fresh [] =
       (Inr (), negotiated fresh 636 None (Some True),
        [Bind (tls12_candidate fresh), Bind (tlsv1_candidate fresh)])
   \<and> handshake_failed (reply1 (scripted (refusing [Some PROTOCOL_TLSv1_2, Some PROTOCOL_TLSv1] (Inl LDAPSocketReceiveError)) no_entries) fresh [])
   \<and> handshake_failed (reply2 (scripted (refusing [Some PROTOCOL_TLSv1_2, Some PROTOCOL_TLSv1] (Inl LDAPSocketReceiveError)) no_entries) fresh [])
   \<and> reply3 (scripted (refusing [Some PROTOCOL_TLSv1_2, Some PROTOCOL_TLSv1] (Inl LDAPSocketReceiveError)) no_entries) fresh []
       = Inl LDAPSocketReceiveError
   \<and> getPort (scripted (refusing [Some PROTOCOL_TLSv1_2, Some PROTOCOL_TLSv1] (Inl LDAPSocketReceiveError)) no_entries) fresh [] =
       (Inr (), negotiated fresh 389 None None,
        [Bind (tls12_candidate fresh), Bind (tlsv1_candidate fresh),
         LogDebug ''LDAPS failed, trying with LDAP.'', Bind (plain_candidate fresh)])"
  using receive_failure_is_success [of fresh "scripted (refusing [] (Inl LDAPSocketReceiveError)) no_entries" "[]"]
    receive_failure_is_success [of fresh "scripted (refusing [Some PROTOCOL_TLSv1_2] (Inl LDAPSocketReceiveError)) no_entries" "[]"]
    receive_failure_is_success [of fresh "scripted (refusing [Some PROTOCOL_TLSv1_2, Some PROTOCOL_TLSv1] (Inl LDAPSocketReceiveError)) no_entries" "[]"]
  by (simp add: sample_defs)

theorem supplied_port_skips_negotiation_witness:
  "truthy_int (method_port (target with_port))
   \<and> tlsv1_2 (target with_port) = None \<and> tlsv1 (target with_port) = None
   \<and> getPort (scripted (refusing [None] success) no_entries) with_port [] = (Inr (), with_port, [])
   \<and> use_tls (target with_port) = None
   \<and> plaintext_server with_port =
       \<lparr>host = ''dc01'', use_ssl = None, server_port = Some 3268, tls = None\<rparr>
   \<and> Authentication (scripted (refusing [None] success) no_entries) with_port [] =
       (Inl LDAPSocketOpenError, [Bind (auth_conn with_port SIMPLE)])
   \<and> server (auth_conn with_port SIMPLE) = plaintext_server with_port"
  using supplied_port_skips_negotiation [of with_port "scripted (refusing [None] success) no_entries" "[]"]
  by (simp add: sample_defs plaintext_server_def Authentication_def bind_by_mechanism_def
      auth_conn_def auth_server_def auth_tls_def use_tls_def or_bool_def)
subsection \<open>Authentication\<close>

lemma kerberosAuthentication_cases:
  "kerberosAuthentication env self c tr =
     (case kerberos_reply env tr (krb_args self) of
        Inl e \<Rightarrow> (Inl e, tr @ [KerberosLogin (krb_args self)])
      | Inr blob \<Rightarrow>
          (case sasl_reply env (tr @ [KerberosLogin (krb_args self)]) c (spnego_request self blob) of
             Inl e \<Rightarrow> Inl e
           | Inr res \<Rightarrow> if result_code res \<noteq> 0 then Inl (Exception_response res) else Inr (c, res),
           tr @ [KerberosLogin (krb_args self), SaslBind c (spnego_request self blob)]))"
  by (simp add: kerberosAuthentication_def krb_args_def spnego_request_def Let_def split: sum.splits)

lemma bind_by_mechanism_no_search:
  "\<exists>evs. snd (bind_by_mechanism env self tr) = tr @ evs \<and> filter is_Search evs = []"
proof (cases "doKerberos (credentials self)")
  case True
  then show ?thesis
    by (simp add: bind_by_mechanism_def kerberosAuthentication_cases split: sum.splits)
next
  case False
  then show ?thesis
    by (simp add: bind_by_mechanism_def Let_def split: sum.splits)
qed

lemma search_auth_fails:
  "Authentication env self tr = (Inl e, tr1) \<Longrightarrow>
     search env self dn flt sc attrs cookie tr = Some (Inl e, tr1)"
  by (subst search.simps) simp

lemma Authentication_invalid:
  assumes "bind_by_mechanism env self tr = (Inr (ldapConn, res), tr1)"
    and "description res = ''invalidCredentials''"
  shows "Authentication env self tr = (Inl (SystemExit 1), tr1 @ [LogError ''Invalid credentials !''])"
  using assms by (simp add: Authentication_def)

lemma bind_by_mechanism_simple:
  "\<not> doKerberos (credentials self) \<Longrightarrow> doSimpleBind (credentials self) \<Longrightarrow>
     bind_by_mechanism env self tr =
       (case bind_reply env tr (auth_conn self SIMPLE) of
          Inl e \<Rightarrow> Inl e | Inr res \<Rightarrow> Inr (auth_conn self SIMPLE, res),
        tr @ [Bind (auth_conn self SIMPLE)])"
  by (simp add: bind_by_mechanism_def Let_def split: sum.splits)

lemma bind_by_mechanism_ntlm:
  "\<not> doKerberos (credentials self) \<Longrightarrow> \<not> doSimpleBind (credentials self) \<Longrightarrow>
     bind_by_mechanism env self tr =
       (if bind_reply env tr (auth_conn self NTLM) = Inl LDAPSocketReceiveError
        then (Inl (SystemExit 1),
              tr @ [Bind (auth_conn self NTLM),
                    LogError ''Can't connect using NTLM, try with -simple-bind option''])
        else (case bind_reply env tr (auth_conn self NTLM) of
                Inl e \<Rightarrow> Inl e | Inr res \<Rightarrow> Inr (auth_conn self NTLM, res),
              tr @ [Bind (auth_conn self NTLM)]))"
  by (simp add: bind_by_mechanism_def Let_def split: sum.splits)

lemma bind_by_mechanism_kerberos:
  "doKerberos (credentials self) \<Longrightarrow>
     bind_by_mechanism env self tr =
       kerberosAuthentication env self (anonymous (auth_server self)) tr"
  by (simp add: bind_by_mechanism_def)

lemma Authentication_error:
  "bind_by_mechanism env self tr = (Inl e, tr1) \<Longrightarrow> Authentication env self tr = (Inl e, tr1)"
  by (simp add: Authentication_def)

text \<open>
  C3. With simple bind and with NTLM, when \<open>bind()\<close> returns and the description of its result
  is \<open>invalidCredentials\<close>, \<open>__Authentication\<close> logs \<open>Invalid credentials !\<close> and exits with
  status 1; a \<open>search\<close> called in that situation ends the same way, and its trace holds the
  bind and the message only: no search request was sent. With Kerberos a SASL bind answer
  with a result code other than 0, as the answer \<open>invalidCredentials\<close> (code 49) is, makes
  \<open>kerberosAuthentication\<close> raise \<open>Exception(response)\<close>: the description is not looked at,
  nothing is logged, there is no exit with status 1, and again no search request is sent.
\<close>

theorem invalid_credentials_fatal:
  "(\<not> doKerberos (credentials self) \<and> doSimpleBind (credentials self)
      \<and> bind_reply env tr (auth_conn self SIMPLE) = Inr res
      \<and> description res = ''invalidCredentials'' \<longrightarrow>
      Authentication env self tr =
        (Inl (SystemExit 1), tr @ [Bind (auth_conn self SIMPLE), LogError ''Invalid credentials !''])
    \<and> search env self dn flt sc attrs cookie tr =
        Some (Inl (SystemExit 1),
              tr @ [Bind (auth_conn self SIMPLE), LogError ''Invalid credentials !'']))
   \<and> (\<not> doKerberos (credentials self) \<and> \<not> doSimpleBind (credentials self)
      \<and> bind_reply env tr (auth_conn self NTLM) = Inr res
      \<and> description res = ''invalidCredentials'' \<longrightarrow>
      Authentication env self tr =
        (Inl (SystemExit 1), tr @ [Bind (auth_conn self NTLM), LogError ''Invalid credentials !''])
    \<and> search env self dn flt sc attrs cookie tr =
        Some (Inl (SystemExit 1),
              tr @ [Bind (auth_conn self NTLM), LogError ''Invalid credentials !'']))
   \<and> (doKerberos (credentials self)
      \<and> kerberos_reply env tr (krb_args self) = Inr blob
      \<and> sasl_reply env (tr @ [KerberosLogin (krb_args self)]) (anonymous (auth_server self))
           (spnego_request self blob) = Inr res
      \<and> result_code res \<noteq> 0 \<longrightarrow>
      Authentication env self tr =
        (Inl (Exception_response res),
         tr @ [KerberosLogin (krb_args self),
               SaslBind (anonymous (auth_server self)) (spnego_request self blob)])
    \<and> search env self dn flt sc attrs cookie tr =
        Some (Inl (Exception_response res),
              tr @ [KerberosLogin (krb_args self),
                    SaslBind (anonymous (auth_server self)) (spnego_request self blob)]))"
proof (intro conjI impI)
  assume h: "\<not> doKerberos (credentials self) \<and> doSimpleBind (credentials self)
      \<and> bind_reply env tr (auth_conn self SIMPLE) = Inr res
      \<and> description res = ''invalidCredentials''"
  then have b: "bind_by_mechanism env self tr =
      (Inr (auth_conn self SIMPLE, res), tr @ [Bind (auth_conn self SIMPLE)])"
    by (simp add: bind_by_mechanism_simple)
  from Authentication_invalid [OF b] h
  show a: "Authentication env self tr =
        (Inl (SystemExit 1), tr @ [Bind (auth_conn self SIMPLE), LogError ''Invalid credentials !''])"
    by simp
  show "search env self dn flt sc attrs cookie tr =
        Some (Inl (SystemExit 1),
              tr @ [Bind (auth_conn self SIMPLE), LogError ''Invalid credentials !''])"
    by (rule search_auth_fails [OF a])
next
  assume h: "\<not> doKerberos (credentials self) \<and> \<not> doSimpleBind (credentials self)
      \<and> bind_reply env tr (auth_conn self NTLM) = Inr res
      \<and> description res = ''invalidCredentials''"
  then have b: "bind_by_mechanism env self tr =
      (Inr (auth_conn self NTLM, res), tr @ [Bind (auth_conn self NTLM)])"
    by (simp add: bind_by_mechanism_ntlm)
  from Authentication_invalid [OF b] h
  show a: "Authentication env self tr =
        (Inl (SystemExit 1), tr @ [Bind (auth_conn self NTLM), LogError ''Invalid credentials !''])"
    by simp
  show "search env self dn flt sc attrs cookie tr =
        Some (Inl (SystemExit 1),
              tr @ [Bind (auth_conn self NTLM), LogError ''Invalid credentials !''])"
    by (rule search_auth_fails [OF a])
next
  assume h: "doKerberos (credentials self)
      \<and> kerberos_reply env tr (krb_args self) = Inr blob
      \<and> sasl_reply env (tr @ [KerberosLogin (krb_args self)]) (anonymous (auth_server self))
           (spnego_request self blob) = Inr res
      \<and> result_code res \<noteq> 0"
  then have b: "bind_by_mechanism env self tr =
      (Inl (Exception_response res),
       tr @ [KerberosLogin (krb_args self),
             SaslBind (anonymous (auth_server self)) (spnego_request self blob)])"
    by (simp add: bind_by_mechanism_kerberos kerberosAuthentication_cases)
  show a: "Authentication env self tr =
        (Inl (Exception_response res),
         tr @ [KerberosLogin (krb_args self),
               SaslBind (anonymous (auth_server self)) (spnego_request self blob)])"
    by (rule Authentication_error [OF b])
  show "search env self dn flt sc attrs cookie tr =
        Some (Inl (Exception_response res),
              tr @ [KerberosLogin (krb_args self),
                    SaslBind (anonymous (auth_server self)) (spnego_request self blob)])"
    by (rule search_auth_fails [OF a])
qed

text \<open>
  C7. An NTLM bind that raises \<open>LDAPSocketReceiveError\<close> makes \<open>__Authentication\<close> exit with
  status 1 after logging the advice to retry with \<open>-simple-bind\<close>, a message that is not the
  one for invalid credentials, which is not logged.
\<close>

theorem ntlm_receive_failure:
  assumes "\<not> doKerberos (credentials self)" "\<not> doSimpleBind (credentials self)"
    and "bind_reply env tr (auth_conn self NTLM) = Inl LDAPSocketReceiveError"
  shows "Authentication env self tr =
           (Inl (SystemExit 1),
            tr @ [Bind (auth_conn self NTLM),
                  LogError ''Can't connect using NTLM, try with -simple-bind option''])
       \<and> ''Can't connect using NTLM, try with -simple-bind option'' \<noteq> ''Invalid credentials !''"
  using assms by (simp add: Authentication_error bind_by_mechanism_ntlm)

text \<open>
  C10. With simple bind, a bind that raises \<open>LDAPSocketReceiveError\<close> is not caught:
  \<open>__Authentication\<close> ends with that very exception, nothing is logged and there is no exit;
  a \<open>search\<close> passes the exception on to its caller.
\<close>

theorem simple_bind_receive_failure_propagates:
  assumes "\<not> doKerberos (credentials self)" "doSimpleBind (credentials self)"
    and "bind_reply env tr (auth_conn self SIMPLE) = Inl LDAPSocketReceiveError"
  shows "Authentication env self tr =
           (Inl LDAPSocketReceiveError, tr @ [Bind (auth_conn self SIMPLE)])
       \<and> search env self dn flt sc attrs cookie tr =
           Some (Inl LDAPSocketReceiveError, tr @ [Bind (auth_conn self SIMPLE)])"
proof -
  have a: "Authentication env self tr =
           (Inl LDAPSocketReceiveError, tr @ [Bind (auth_conn self SIMPLE)])"
    using assms by (simp add: Authentication_error bind_by_mechanism_simple)
  with search_auth_fails [OF a] show ?thesis by simp
qed

lemmas auth_defs = ntlm_user_def simple_user_def kerberos_user_def negotiated_target_def
  sample_ldap_def sample_creds_def scripted_def rejected_def auth_conn_def auth_server_def
  auth_tls_def auth_user_def use_tls_def or_bool_def anonymous_def krb_args_def
  spnego_request_def

theorem invalid_credentials_fatal_witness:
  "\<not> doKerberos (credentials ntlm_user) \<and> \<not> doSimpleBind (credentials ntlm_user)
   \<and> bind_reply (scripted (\<lambda>c. rejected) no_entries) [] (auth_conn ntlm_user NTLM)
        = Inr (BindResult 49 ''invalidCredentials'')
   \<and> Authentication (scripted (\<lambda>c. rejected) no_entries) ntlm_user [] =
       (Inl (SystemExit 1), [Bind (auth_conn ntlm_user NTLM), LogError ''Invalid credentials !''])
   \<and> search (scripted (\<lambda>c. rejected) no_entries) ntlm_user ''DC=corp'' ''(objectClass=*)''
         SUBTREE [''cn''] None [] =
       Some (Inl (SystemExit 1),
             [Bind (auth_conn ntlm_user NTLM), LogError ''Invalid credentials !''])
   \<and> \<not> doKerberos (credentials simple_user) \<and> doSimpleBind (credentials simple_user)
   \<and> bind_reply (scripted (\<lambda>c. rejected) no_entries) [] (auth_conn simple_user SIMPLE)
        = Inr (BindResult 49 ''invalidCredentials'')
   \<and> Authentication (scripted (\<lambda>c. rejected) no_entries) simple_user [] =
       (Inl (SystemExit 1), [Bind (auth_conn simple_user SIMPLE), LogError ''Invalid credentials !''])
   \<and> search (scripted (\<lambda>c. rejected) no_entries) simple_user ''DC=corp'' ''(objectClass=*)''
         SUBTREE [''cn''] None [] =
       Some (Inl (SystemExit 1),
             [Bind (auth_conn simple_user SIMPLE), LogError ''Invalid credentials !''])
   \<and> doKerberos (credentials kerberos_user)
   \<and> kerberos_reply (scripted (\<lambda>c. rejected) no_entries) [] (krb_args kerberos_user)
        = Inr ''ticket''
   \<and> sasl_reply (scripted (\<lambda>c. rejected) no_entries) [KerberosLogin (krb_args kerberos_user)]
        (anonymous (auth_server kerberos_user)) (spnego_request kerberos_user ''ticket'')
        = Inr (BindResult 49 ''invalidCredentials'')
   \<and> Authentication (scripted (\<lambda>c. rejected) no_entries) kerberos_user [] =
       (Inl (Exception_response (BindResult 49 ''invalidCredentials'')),
        [KerberosLogin (krb_args kerberos_user),
         SaslBind (anonymous (auth_server kerberos_user)) (spnego_request kerberos_user ''ticket'')])
   \<and> search (scripted (\<lambda>c. rejected) no_entries) kerberos_user ''DC=corp'' ''(objectClass=*)''
         SUBTREE [''cn''] None [] =
       Some (Inl (Exception_response (BindResult 49 ''invalidCredentials'')),
        [KerberosLogin (krb_args kerberos_user),
         SaslBind (anonymous (auth_server kerberos_user)) (spnego_request kerberos_user ''ticket'')])"
proof -
  let ?env = "scripted (\<lambda>c. rejected) no_entries"
  let ?res = "BindResult 49 ''invalidCredentials''"
  have n: "\<not> doKerberos (credentials ntlm_user) \<and> \<not> doSimpleBind (credentials ntlm_user)
      \<and> bind_reply ?env [] (auth_conn ntlm_user NTLM) = Inr ?res
      \<and> description ?res = ''invalidCredentials''"
    by (simp add: ntlm_user_def sample_ldap_def sample_creds_def scripted_def rejected_def)
  have s: "\<not> doKerberos (credentials simple_user) \<and> doSimpleBind (credentials simple_user)
      \<and> bind_reply ?env [] (auth_conn simple_user SIMPLE) = Inr ?res
      \<and> description ?res = ''invalidCredentials''"
    by (simp add: simple_user_def sample_ldap_def sample_creds_def scripted_def rejected_def)
  have k: "doKerberos (credentials kerberos_user)
      \<and> kerberos_reply ?env [] (krb_args kerberos_user) = Inr ''ticket''
      \<and> sasl_reply ?env ([] @ [KerberosLogin (krb_args kerberos_user)])
           (anonymous (auth_server kerberos_user)) (spnego_request kerberos_user ''ticket'')
          = Inr ?res
      \<and> result_code ?res \<noteq> 0"
    by (simp add: kerberos_user_def sample_ldap_def sample_creds_def scripted_def rejected_def)
  note t = invalid_credentials_fatal [where env = ?env and tr = "[]" and res = ?res
      and dn = "''DC=corp''" and flt = "''(objectClass=*)''" and sc = SUBTREE
      and attrs = "[''cn'']" and cookie = None]
  have rn: "Authentication ?env ntlm_user [] =
        (Inl (SystemExit 1), [] @ [Bind (auth_conn ntlm_user NTLM), LogError ''Invalid credentials !''])
    \<and> search ?env ntlm_user ''DC=corp'' ''(objectClass=*)'' SUBTREE [''cn''] None [] =
        Some (Inl (SystemExit 1),
              [] @ [Bind (auth_conn ntlm_user NTLM), LogError ''Invalid credentials !''])"
    using t [where self = ntlm_user and blob = "''ticket''"] n by blast
  have rs: "Authentication ?env simple_user [] =
        (Inl (SystemExit 1), [] @ [Bind (auth_conn simple_user SIMPLE), LogError ''Invalid credentials !''])
    \<and> search ?env simple_user ''DC=corp'' ''(objectClass=*)'' SUBTREE [''cn''] None [] =
        Some (Inl (SystemExit 1),
              [] @ [Bind (auth_conn simple_user SIMPLE), LogError ''Invalid credentials !''])"
    using t [where self = simple_user and blob = "''ticket''"] s by blast
  have rk: "Authentication ?env kerberos_user [] =
        (Inl (Exception_response ?res),
         [] @ [KerberosLogin (krb_args kerberos_user),
               SaslBind (anonymous (auth_server kerberos_user))
                 (spnego_request kerberos_user ''ticket'')])
    \<and> search ?env kerberos_user ''DC=corp'' ''(objectClass=*)'' SUBTREE [''cn''] None [] =
        Some (Inl (Exception_response ?res),
              [] @ [KerberosLogin (krb_args kerberos_user),
                    SaslBind (anonymous (auth_server kerberos_user))
                      (spnego_request kerberos_user ''ticket'')])"
    using t [where self = kerberos_user and blob = "''ticket''"] k by blast
  show ?thesis
    using n s k rn rs rk by simp
qed

text \<open>
  A Kerberos bind that the server answers with \<open>invalidCredentials\<close> (result code 49) does
  not end in the message \<open>Invalid credentials !\<close> and exit status 1: the exception raised for
  the non-zero result code leaves \<open>__Authentication\<close>.
\<close>

theorem invalid_credentials_fatal_counterexample:
  "doKerberos (credentials kerberos_user)
   \<and> sasl_reply (scripted (\<lambda>c. rejected) no_entries) [KerberosLogin (krb_args kerberos_user)]
        (anonymous (auth_server kerberos_user)) (spnego_request kerberos_user ''ticket'')
        = Inr (BindResult 49 ''invalidCredentials'')
   \<and> description (BindResult 49 ''invalidCredentials'') = ''invalidCredentials''
   \<and> Authentication (scripted (\<lambda>c. rejected) no_entries) kerberos_user [] =
       (Inl (Exception_response (BindResult 49 ''invalidCredentials'')),
        [KerberosLogin (krb_args kerberos_user),
         SaslBind (anonymous (auth_server kerberos_user)) (spnego_request kerberos_user ''ticket'')])
   \<and> fst (Authentication (scripted (\<lambda>c. rejected) no_entries) kerberos_user [])
        \<noteq> Inl (SystemExit 1)
   \<and> LogError ''Invalid credentials !'' \<notin>
        set (snd (Authentication (scripted (\<lambda>c. rejected) no_entries) kerberos_user []))"
proof -
  have a: "Authentication (scripted (\<lambda>c. rejected) no_entries) kerberos_user [] =
       (Inl (Exception_response (BindResult 49 ''invalidCredentials'')),
        [KerberosLogin (krb_args kerberos_user),
         SaslBind (anonymous (auth_server kerberos_user)) (spnego_request kerberos_user ''ticket'')])"
    by (simp add: Authentication_def bind_by_mechanism_kerberos kerberosAuthentication_cases
        kerberos_user_def sample_ldap_def sample_creds_def scripted_def rejected_def)
  show ?thesis
    unfolding a
    by (simp add: kerberos_user_def sample_ldap_def sample_creds_def scripted_def rejected_def)
qed

theorem ntlm_receive_failure_witness:
  "\<not> doKerberos (credentials ntlm_user) \<and> \<not> doSimpleBind (credentials ntlm_user)
   \<and> bind_reply (scripted (\<lambda>c. Inl LDAPSocketReceiveError) no_entries) []
        (auth_conn ntlm_user NTLM) = Inl LDAPSocketReceiveError
   \<and> Authentication (scripted (\<lambda>c. Inl LDAPSocketReceiveError) no_entries) ntlm_user [] =
        (Inl (SystemExit 1),
         [Bind (auth_conn ntlm_user NTLM),
          LogError ''Can't connect using NTLM, try with -simple-bind option''])"
  using ntlm_receive_failure [of ntlm_user "scripted (\<lambda>c. Inl LDAPSocketReceiveError) no_entries" "[]"]
  by (simp add: ntlm_user_def sample_ldap_def sample_creds_def scripted_def)

theorem simple_bind_receive_failure_propagates_witness:
  "\<not> doKerberos (credentials simple_user) \<and> doSimpleBind (credentials simple_user)
   \<and> bind_reply (scripted (\<lambda>c. Inl LDAPSocketReceiveError) no_entries) []
        (auth_conn simple_user SIMPLE) = Inl LDAPSocketReceiveError
   \<and> Authentication (scripted (\<lambda>c. Inl LDAPSocketReceiveError) no_entries) simple_user [] =
        (Inl LDAPSocketReceiveError, [Bind (auth_conn simple_user SIMPLE)])
   \<and> search (scripted (\<lambda>c. Inl LDAPSocketReceiveError) no_entries) simple_user ''DC=corp''
        ''(objectClass=*)'' SUBTREE [''cn''] None [] =
        Some (Inl LDAPSocketReceiveError, [Bind (auth_conn simple_user SIMPLE)])"
  using simple_bind_receive_failure_propagates
    [of simple_user "scripted (\<lambda>c. Inl LDAPSocketReceiveError) no_entries" "[]"
        "''DC=corp''" "''(objectClass=*)''" SUBTREE "[''cn'']" None]
  by (simp add: simple_user_def sample_ldap_def sample_creds_def scripted_def)
subsection \<open>Paged search\<close>

lemma search_last_page:
  assumes "Authentication env self tr = (Inr c, tr1)"
    and "search_reply env tr1 c (request dn flt sc attrs cookie) = Inr res"
    and "next_cookie res = Inr ck" and "\<not> truthy_str ck"
  shows "search env self dn flt sc attrs cookie tr =
           Some (Inr (response res), tr1 @ [Search c (request dn flt sc attrs cookie)])"
  using assms by (subst search.simps) simp

lemma search_next_page:
  assumes "Authentication env self tr = (Inr c, tr1)"
    and "search_reply env tr1 c (request dn flt sc attrs cookie) = Inr res"
    and "next_cookie res = Inr ck" and "truthy_str ck"
  shows "search env self dn flt sc attrs cookie tr =
           (case search env self dn flt sc attrs ck
                   (tr1 @ [Search c (request dn flt sc attrs cookie)]) of
              None \<Rightarrow> None
            | Some (Inl e, tr3) \<Rightarrow> Some (Inl e, tr3)
            | Some (Inr rest, tr3) \<Rightarrow> Some (Inr (response res @ rest), tr3))"
  using assms
  by (subst search.simps) (simp add: Let_def split: option.splits sum.splits prod.splits)

lemma paged_search:
  "paged env self dn flt sc attrs cookie tr rs tr' \<Longrightarrow>
     search env self dn flt sc attrs cookie tr = Some (Inr (concat (map response rs)), tr')"
proof (induction rule: paged.induct)
  case (last_page env self tr c tr1 dn flt sc attrs cookie res ck)
  then show ?case by (simp add: search_last_page)
next
  case (next_page env self tr c tr1 dn flt sc attrs cookie res ck rs tr')
  then show ?case by (simp add: search_next_page)
qed

text \<open>
  C2. After a round trip of \<open>search\<close> (authentication, then the request) whose result holds a
  non-empty cookie, the function calls itself with the same base, filter, scope and
  attributes and that cookie, on the trace so far, and returns what this call returns with
  the entries of the current page put in front (an exception of the call, or its not
  returning, is passed on). Without a cookie, or with an empty one, it returns the entries of
  the page. Hence a run over the pages \<open>rs\<close> returns their entries in the order of the pages.
\<close>

theorem paged_search_order:
  "(\<forall>c tr1 res ck.
       Authentication env self tr = (Inr c, tr1)
     \<and> search_reply env tr1 c (request dn flt sc attrs cookie) = Inr res
     \<and> next_cookie res = Inr (Some ck) \<and> ck \<noteq> [] \<longrightarrow>
       search env self dn flt sc attrs cookie tr =
         (case search env self dn flt sc attrs (Some ck)
                 (tr1 @ [Search c (request dn flt sc attrs cookie)]) of
            None \<Rightarrow> None
          | Some (Inl e, tr3) \<Rightarrow> Some (Inl e, tr3)
          | Some (Inr rest, tr3) \<Rightarrow> Some (Inr (response res @ rest), tr3)))
   \<and> (\<forall>c tr1 res.
       Authentication env self tr = (Inr c, tr1)
     \<and> search_reply env tr1 c (request dn flt sc attrs cookie) = Inr res
     \<and> (next_cookie res = Inr None \<or> next_cookie res = Inr (Some [])) \<longrightarrow>
       search env self dn flt sc attrs cookie tr =
         Some (Inr (response res), tr1 @ [Search c (request dn flt sc attrs cookie)]))
   \<and> (\<forall>rs tr'. paged env self dn flt sc attrs cookie tr rs tr' \<longrightarrow>
       search env self dn flt sc attrs cookie tr = Some (Inr (concat (map response rs)), tr'))"
proof (intro conjI allI impI)
  fix c tr1 res ck
  assume "Authentication env self tr = (Inr c, tr1)
     \<and> search_reply env tr1 c (request dn flt sc attrs cookie) = Inr res
     \<and> next_cookie res = Inr (Some ck) \<and> ck \<noteq> []"
  then show "search env self dn flt sc attrs cookie tr =
         (case search env self dn flt sc attrs (Some ck)
                 (tr1 @ [Search c (request dn flt sc attrs cookie)]) of
            None \<Rightarrow> None
          | Some (Inl e, tr3) \<Rightarrow> Some (Inl e, tr3)
          | Some (Inr rest, tr3) \<Rightarrow> Some (Inr (response res @ rest), tr3))"
    by (intro search_next_page) simp_all
next
  fix c tr1 res
  assume a: "Authentication env self tr = (Inr c, tr1)
     \<and> search_reply env tr1 c (request dn flt sc attrs cookie) = Inr res
     \<and> (next_cookie res = Inr None \<or> next_cookie res = Inr (Some []))"
  then obtain ck where "next_cookie res = Inr ck" "\<not> truthy_str ck" by auto
  with a show "search env self dn flt sc attrs cookie tr =
         Some (Inr (response res), tr1 @ [Search c (request dn flt sc attrs cookie)])"
    by (intro search_last_page) simp_all
next
  fix rs tr'
  assume "paged env self dn flt sc attrs cookie tr rs tr'"
  then show "search env self dn flt sc attrs cookie tr = Some (Inr (concat (map response rs)), tr')"
    by (rule paged_search)
qed


lemmas paging_defs = scripted_def two_pages_def page1_def page2_def request_def next_cookie_def
  success_def

lemma Authentication_ntlm_success:
  "Authentication (scripted (\<lambda>c. success) s) ntlm_user tr =
     (Inr (auth_conn ntlm_user NTLM), tr @ [Bind (auth_conn ntlm_user NTLM)])"
  by (simp add: Authentication_def bind_by_mechanism_def Let_def scripted_def success_def
      ntlm_user_def sample_ldap_def sample_creds_def)

theorem paged_search_order_witness:
  "Authentication (scripted (\<lambda>c. success) two_pages) ntlm_user [] =
     (Inr (auth_conn ntlm_user NTLM), [Bind (auth_conn ntlm_user NTLM)])
   \<and> search_reply (scripted (\<lambda>c. success) two_pages) [Bind (auth_conn ntlm_user NTLM)]
        (auth_conn ntlm_user NTLM) (request ''DC=corp'' ''(cn=*)'' SUBTREE [''cn''] None) = Inr page1
   \<and> next_cookie page1 = Inr (Some ''C1'')
   \<and> length (response page1) = 3
   \<and> next_cookie page2 = Inr None
   \<and> length (response page2) = 2
   \<and> paged (scripted (\<lambda>c. success) two_pages) ntlm_user ''DC=corp'' ''(cn=*)'' SUBTREE [''cn'']
        None [] [page1, page2]
        [Bind (auth_conn ntlm_user NTLM),
         Search (auth_conn ntlm_user NTLM) (request ''DC=corp'' ''(cn=*)'' SUBTREE [''cn''] None),
         Bind (auth_conn ntlm_user NTLM),
         Search (auth_conn ntlm_user NTLM)
           (request ''DC=corp'' ''(cn=*)'' SUBTREE [''cn''] (Some ''C1''))]
   \<and> search (scripted (\<lambda>c. success) two_pages) ntlm_user ''DC=corp'' ''(cn=*)'' SUBTREE [''cn'']
        None [] =
       Some (Inr [sample_entry ''u1'', sample_entry ''u2'', sample_entry ''u3'',
                  sample_entry ''u4'', sample_entry ''u5''],
             [Bind (auth_conn ntlm_user NTLM),
              Search (auth_conn ntlm_user NTLM) (request ''DC=corp'' ''(cn=*)'' SUBTREE [''cn''] None),
              Bind (auth_conn ntlm_user NTLM),
              Search (auth_conn ntlm_user NTLM)
                (request ''DC=corp'' ''(cn=*)'' SUBTREE [''cn''] (Some ''C1''))])"
proof -
  let ?env = "scripted (\<lambda>c. success) two_pages"
  let ?c = "auth_conn ntlm_user NTLM"
  let ?q = "request ''DC=corp'' ''(cn=*)'' SUBTREE [''cn'']"
  let ?tr2 = "[Bind ?c, Search ?c (?q None)]"
  let ?tr4 = "[Bind ?c, Search ?c (?q None), Bind ?c, Search ?c (?q (Some ''C1''))]"
  have a1: "Authentication ?env ntlm_user [] = (Inr ?c, [Bind ?c])"
    using Authentication_ntlm_success [of two_pages "[]"] by simp
  have a2: "Authentication ?env ntlm_user ?tr2 = (Inr ?c, [Bind ?c, Search ?c (?q None), Bind ?c])"
    using Authentication_ntlm_success [of two_pages ?tr2] by simp
  have r1: "search_reply ?env [Bind ?c] ?c (?q None) = Inr page1"
    by (simp add: scripted_def two_pages_def request_def)
  have r2: "search_reply ?env [Bind ?c, Search ?c (?q None), Bind ?c] ?c (?q (Some ''C1'')) = Inr page2"
    by (simp add: scripted_def two_pages_def request_def)
  have c1: "next_cookie page1 = Inr (Some ''C1'')"
    by (simp add: next_cookie_def page1_def)
  have c2: "next_cookie page2 = Inr None"
    by (simp add: next_cookie_def page2_def)
  note second = paged_search_order [of ?env ntlm_user ?tr2 "''DC=corp''" "''(cn=*)''" SUBTREE
      "[''cn'']" "Some ''C1''"]
  note first = paged_search_order [of ?env ntlm_user "[]" "''DC=corp''" "''(cn=*)''" SUBTREE
      "[''cn'']" None]
  have s2: "search ?env ntlm_user ''DC=corp'' ''(cn=*)'' SUBTREE [''cn''] (Some ''C1'') ?tr2 =
              Some (Inr (response page2), ?tr4)"
    using second a2 r2 c2 by simp
  have s1: "search ?env ntlm_user ''DC=corp'' ''(cn=*)'' SUBTREE [''cn''] None [] =
              Some (Inr (response page1 @ response page2), ?tr4)"
    using first a1 r1 c1 s2 by simp
  have p2: "paged ?env ntlm_user ''DC=corp'' ''(cn=*)'' SUBTREE [''cn''] (Some ''C1'') ?tr2
              [page2] ?tr4"
    using paged.last_page [OF a2 r2 c2] by simp
  have p1: "paged ?env ntlm_user ''DC=corp'' ''(cn=*)'' SUBTREE [''cn''] None [] [page1, page2] ?tr4"
    using paged.next_page [OF a1 r1 c1] p2 by simp
  have s1': "search ?env ntlm_user ''DC=corp'' ''(cn=*)'' SUBTREE [''cn''] None [] =
              Some (Inr (concat (map response [page1, page2])), ?tr4)"
    using first p1 by blast
  show ?thesis
    using s1 s1' p1 a1 r1 c1 c2 by (simp add: page1_def page2_def)
qed

lemma searches_append: "searches (xs @ ys) = searches xs @ searches ys"
  by (induction xs rule: searches.induct) simp_all

lemma bound_before_search_append:
  "bound_before_search p (xs @ ys) =
     (bound_before_search p xs \<and> bound_before_search (if xs = [] then p else Some (last xs)) ys)"
  by (induction p xs rule: bound_before_search.induct) auto

lemma bound_before_search_weaken:
  "bound_before_search None xs \<Longrightarrow> bound_before_search p xs"
  by (induction p xs rule: bound_before_search.induct) auto

lemma bind_by_mechanism_events:
  assumes "bind_by_mechanism env self tr = (r, tr1)"
  shows "\<exists>evs. tr1 = tr @ evs \<and> searches evs = [] \<and> bound_before_search None evs
           \<and> (\<forall>c res. r = Inr (c, res) \<longrightarrow> evs \<noteq> [] \<and> binds c (Some (last evs)))"
proof (cases "doKerberos (credentials self)")
  case True
  then show ?thesis
    using assms
    by (auto simp: bind_by_mechanism_kerberos kerberosAuthentication_cases
        split: sum.splits if_splits)
next
  case False
  then show ?thesis
    using assms
    by (cases "doSimpleBind (credentials self)")
       (auto simp: bind_by_mechanism_simple bind_by_mechanism_ntlm split: sum.splits if_splits)
qed

lemma Authentication_events:
  assumes "Authentication env self tr = (r, tr1)"
  shows "\<exists>evs. tr1 = tr @ evs \<and> searches evs = [] \<and> bound_before_search None evs
           \<and> (\<forall>c. r = Inr c \<longrightarrow> evs \<noteq> [] \<and> binds c (Some (last evs)))"
proof -
  obtain rb trb where b: "bind_by_mechanism env self tr = (rb, trb)"
    by (cases "bind_by_mechanism env self tr")
  from bind_by_mechanism_events [OF b] obtain evs where
    e: "trb = tr @ evs" "searches evs = []" "bound_before_search None evs"
       "\<forall>c res. rb = Inr (c, res) \<longrightarrow> evs \<noteq> [] \<and> binds c (Some (last evs))"
    by blast
  show ?thesis
  proof (cases rb)
    case (Inl err)
    with assms b e show ?thesis by (auto simp: Authentication_def)
  next
    case (Inr cr)
    obtain c res where cr: "cr = (c, res)" by (cases cr)
    show ?thesis
    proof (cases "description res = ''invalidCredentials''")
      case True
      with assms b e Inr cr show ?thesis
        by (auto simp: Authentication_def searches_append bound_before_search_append)
    next
      case False
      with assms b e Inr cr show ?thesis
        by (auto simp: Authentication_def)
    qed
  qed
qed


lemma page_requests_append:
  "page_requests dn flt sc attrs (xs @ ys) =
     (page_requests dn flt sc attrs xs \<and> page_requests dn flt sc attrs ys)"
  by (simp add: page_requests_def searches_append)

lemma page_requests_no_search: "searches evs = [] \<Longrightarrow> page_requests dn flt sc attrs evs"
  by (simp add: page_requests_def)

lemma page_requests_one: "page_requests dn flt sc attrs [Search c (request dn flt sc attrs cookie)]"
  by (simp add: page_requests_def request_def)

lemma search_trace:
  "search env self dn flt sc attrs cookie tr = Some y \<Longrightarrow>
     \<exists>evs. snd y = tr @ evs \<and> bound_before_search None evs
           \<and> page_requests dn flt sc attrs evs"
proof (induction rule: search.raw_induct [rotated 1, consumes 1])
  case (1 search env self dn flt sc attrs cookie tr y)
  note body = "1.hyps"
  obtain ra tr1 where a: "Authentication env self tr = (ra, tr1)"
    by (cases "Authentication env self tr")
  from Authentication_events [OF a] obtain aevs where
    e: "tr1 = tr @ aevs" "searches aevs = []" "bound_before_search None aevs"
       "\<forall>c. ra = Inr c \<longrightarrow> aevs \<noteq> [] \<and> binds c (Some (last aevs))"
    by blast
  show ?case
  proof (cases ra)
    case (Inl err)
    with body a have "snd y = tr1" by auto
    with e show ?thesis by (auto simp: page_requests_no_search)
  next
    case (Inr c)
    let ?q = "request dn flt sc attrs cookie"
    let ?tr2 = "tr1 @ [Search c ?q]"
    have one: "bound_before_search None (aevs @ [Search c ?q])"
      "page_requests dn flt sc attrs (aevs @ [Search c ?q])"
      using e Inr
      by (simp_all add: bound_before_search_append page_requests_append page_requests_no_search
          page_requests_one)
    have here: "\<exists>evs. ?tr2 = tr @ evs \<and> bound_before_search None evs
           \<and> page_requests dn flt sc attrs evs"
      using one e(1) by auto
    show ?thesis
    proof (cases "search_reply env tr1 c ?q")
      case (Inl err)
      with body a \<open>ra = Inr c\<close> have "snd y = ?tr2" by (auto simp: Let_def)
      with here show ?thesis by simp
    next
      case res: (Inr res)
      show ?thesis
      proof (cases "next_cookie res")
        case (Inl err)
        with body a \<open>ra = Inr c\<close> res have "snd y = ?tr2" by (auto simp: Let_def)
        with here show ?thesis by simp
      next
        case ck: (Inr ck)
        show ?thesis
        proof (cases "truthy_str ck")
          case False
          with body a \<open>ra = Inr c\<close> res ck have "snd y = ?tr2" by (auto simp: Let_def)
          with here show ?thesis by simp
        next
          case True
          with body a \<open>ra = Inr c\<close> res ck obtain y' where
            y': "search env self dn flt sc attrs ck ?tr2 = Some y'" and s: "snd y = snd y'"
            by (auto simp: Let_def split: Option.bind_splits sum.splits prod.splits)
          from "1.IH" [OF y'] obtain evs' where
            r: "snd y' = ?tr2 @ evs'" "bound_before_search None evs'"
               "page_requests dn flt sc attrs evs'"
            by blast
          have "snd y = tr @ (aevs @ [Search c ?q]) @ evs'"
            using s r(1) e(1) by simp
          moreover have "bound_before_search None ((aevs @ [Search c ?q]) @ evs')"
            using one(1) r(2)
            by (subst bound_before_search_append) (simp add: bound_before_search_weaken)
          moreover have "page_requests dn flt sc attrs ((aevs @ [Search c ?q]) @ evs')"
            using one(2) r(3) by (subst page_requests_append) simp
          ultimately show ?thesis by blast
        qed
      qed
    qed
  qed
qed

lemma search_first_request:
  assumes a: "Authentication env self tr = (Inr c, tr1)"
    and s: "search env self dn flt sc attrs cookie tr = Some y"
  shows "\<exists>evs. snd y = tr1 @ Search c (request dn flt sc attrs cookie) # evs"
proof -
  let ?q = "request dn flt sc attrs cookie"
  let ?tr2 = "tr1 @ [Search c ?q]"
  have body: "(case search_reply env tr1 c ?q of
                Inl e \<Rightarrow> Some (Inl e, ?tr2)
              | Inr res \<Rightarrow>
                  (case next_cookie res of
                     Inl e \<Rightarrow> Some (Inl e, ?tr2)
                   | Inr cookie' \<Rightarrow>
                       if truthy_str cookie'
                       then Option.bind (search env self dn flt sc attrs cookie' ?tr2)
                              (\<lambda>(r, tr3). case r of
                                   Inl e \<Rightarrow> Some (Inl e, tr3)
                                 | Inr rest \<Rightarrow> Some (Inr (response res @ rest), tr3))
                       else Some (Inr (response res), ?tr2))) = Some y"
    using s by (subst (asm) search.simps) (simp add: a Let_def)
  have "snd y = ?tr2 \<or> (\<exists>ck y'. search env self dn flt sc attrs ck ?tr2 = Some y' \<and> snd y = snd y')"
    using body by (auto split: sum.splits if_splits Option.bind_splits prod.splits)
  then show ?thesis
  proof
    assume "snd y = ?tr2"
    then show ?thesis by simp
  next
    assume "\<exists>ck y'. search env self dn flt sc attrs ck ?tr2 = Some y' \<and> snd y = snd y'"
    then obtain ck y' where y': "search env self dn flt sc attrs ck ?tr2 = Some y'"
      and e: "snd y = snd y'" by blast
    from search_trace [OF y'] obtain evs where "snd y' = ?tr2 @ evs" by blast
    with e show ?thesis by simp
  qed
qed

lemma request_fields:
  "request dn flt sc attrs cookie =
     \<lparr>search_base = dn, search_filter = flt, search_scope = sc, req_attributes = attrs,
      controls = [(''1.2.840.113556.1.4.801'', True,
                   sd_flags_value (OWNER_SECURITY_INFORMATION + GROUP_SECURITY_INFORMATION
                                   + DACL_SECURITY_INFORMATION))],
      paged_size = 5000, paged_cookie = cookie\<rparr>"
  by (simp add: request_def sd_flags_control_def sd_flags_value_def
      OWNER_SECURITY_INFORMATION_def GROUP_SECURITY_INFORMATION_def DACL_SECURITY_INFORMATION_def)

lemma search_reply_fails:
  assumes "Authentication env self tr = (Inr c, tr1)"
    and "search_reply env tr1 c (request dn flt sc attrs cookie) = Inl e"
  shows "search env self dn flt sc attrs cookie tr =
           Some (Inl e, tr1 @ [Search c (request dn flt sc attrs cookie)])"
  using assms by (subst search.simps) simp

lemma search_cookie_fails:
  assumes "Authentication env self tr = (Inr c, tr1)"
    and "search_reply env tr1 c (request dn flt sc attrs cookie) = Inr res"
    and "next_cookie res = Inl e"
  shows "search env self dn flt sc attrs cookie tr =
           Some (Inl e, tr1 @ [Search c (request dn flt sc attrs cookie)])"
  using assms by (subst search.simps) simp

lemma paged_requests:
  "paged env self dn flt sc attrs cookie tr rs tr' \<Longrightarrow>
     \<exists>evs. tr' = tr @ evs \<and> length (searches evs) = length rs"
proof (induction rule: paged.induct)
  case (last_page env self tr c tr1 dn flt sc attrs cookie res ck)
  from Authentication_events [OF last_page(1)] obtain aevs where
    "tr1 = tr @ aevs" "searches aevs = []" by blast
  then have "tr1 @ [Search c (request dn flt sc attrs cookie)]
               = tr @ (aevs @ [Search c (request dn flt sc attrs cookie)])
             \<and> length (searches (aevs @ [Search c (request dn flt sc attrs cookie)])) = length [res]"
    by (simp add: searches_append)
  then show ?case by blast
next
  case (next_page env self tr c tr1 dn flt sc attrs cookie res ck rs tr')
  from Authentication_events [OF next_page(1)] obtain aevs where
    a: "tr1 = tr @ aevs" "searches aevs = []" by blast
  from next_page.IH obtain evs' where
    e: "tr' = (tr1 @ [Search c (request dn flt sc attrs cookie)]) @ evs'"
       "length (searches evs') = length rs" by blast
  have "tr' = tr @ (aevs @ [Search c (request dn flt sc attrs cookie)] @ evs')
        \<and> length (searches (aevs @ [Search c (request dn flt sc attrs cookie)] @ evs'))
            = length (res # rs)"
    using a e by (simp add: searches_append)
  then show ?case by blast
qed

lemma paged_run:
  assumes "paged env self dn flt sc attrs cookie tr rs tr'"
  shows "search env self dn flt sc attrs cookie tr = Some (Inr (concat (map response rs)), tr')
       \<and> (\<exists>evs. tr' = tr @ evs \<and> length (searches evs) = length rs
              \<and> bound_before_search None evs \<and> page_requests dn flt sc attrs evs)"
proof -
  have s: "search env self dn flt sc attrs cookie tr = Some (Inr (concat (map response rs)), tr')"
    using assms by (rule paged_search)
  from search_trace [OF s] obtain evs where
    e: "tr' = tr @ evs" "bound_before_search None evs" "page_requests dn flt sc attrs evs"
    by auto
  from paged_requests [OF assms] obtain evs' where
    e': "tr' = tr @ evs'" "length (searches evs') = length rs" by blast
  from e(1) e'(1) have "evs' = evs" by simp
  with s e e' show ?thesis by blast
qed

text \<open>
  C6. The request that \<open>search\<close> sends has page size 5000, the cookie it was given, and one
  control: OID 1.2.840.113556.1.4.801, critical, with the ASN.1 value for the flags
  owner + group + DACL = 7. An invocation whose authentication fails returns with no
  request sent. One whose authentication returns the connection \<open>c\<close> sends that request on
  \<open>c\<close> as its one next event; it then returns at once when the request fails, when the
  cookie cannot be read, and when there is no cookie, and otherwise goes on as the
  invocation for the next page, on the trace with that request. In the trace of every run
  that returns, each search request is this request (with some cookie) and comes right after
  a bind on its own connection. A run over the pages \<open>rs\<close> does return, and its trace holds one
  request for each page.
\<close>

theorem search_round_trip:
  "request dn flt sc attrs cookie =
     \<lparr>search_base = dn, search_filter = flt, search_scope = sc, req_attributes = attrs,
      controls = [(''1.2.840.113556.1.4.801'', True,
                   sd_flags_value (OWNER_SECURITY_INFORMATION + GROUP_SECURITY_INFORMATION
                                   + DACL_SECURITY_INFORMATION))],
      paged_size = 5000, paged_cookie = cookie\<rparr>
   \<and> OWNER_SECURITY_INFORMATION + GROUP_SECURITY_INFORMATION + DACL_SECURITY_INFORMATION = 7
   \<and> (\<forall>e tr1. Authentication env self tr = (Inl e, tr1) \<longrightarrow>
         search env self dn flt sc attrs cookie tr = Some (Inl e, tr1))
   \<and> (\<forall>c tr1 e. Authentication env self tr = (Inr c, tr1)
         \<and> search_reply env tr1 c (request dn flt sc attrs cookie) = Inl e \<longrightarrow>
         search env self dn flt sc attrs cookie tr =
           Some (Inl e, tr1 @ [Search c (request dn flt sc attrs cookie)]))
   \<and> (\<forall>c tr1 res e. Authentication env self tr = (Inr c, tr1)
         \<and> search_reply env tr1 c (request dn flt sc attrs cookie) = Inr res
         \<and> next_cookie res = Inl e \<longrightarrow>
         search env self dn flt sc attrs cookie tr =
           Some (Inl e, tr1 @ [Search c (request dn flt sc attrs cookie)]))
   \<and> (\<forall>c tr1 res ck. Authentication env self tr = (Inr c, tr1)
         \<and> search_reply env tr1 c (request dn flt sc attrs cookie) = Inr res
         \<and> next_cookie res = Inr ck \<and> \<not> truthy_str ck \<longrightarrow>
         search env self dn flt sc attrs cookie tr =
           Some (Inr (response res), tr1 @ [Search c (request dn flt sc attrs cookie)]))
   \<and> (\<forall>c tr1 res ck. Authentication env self tr = (Inr c, tr1)
         \<and> search_reply env tr1 c (request dn flt sc attrs cookie) = Inr res
         \<and> next_cookie res = Inr ck \<and> truthy_str ck \<longrightarrow>
         search env self dn flt sc attrs cookie tr =
           (case search env self dn flt sc attrs ck
                   (tr1 @ [Search c (request dn flt sc attrs cookie)]) of
              None \<Rightarrow> None
            | Some (Inl e, tr3) \<Rightarrow> Some (Inl e, tr3)
            | Some (Inr rest, tr3) \<Rightarrow> Some (Inr (response res @ rest), tr3)))
   \<and> (\<forall>c tr1 y. Authentication env self tr = (Inr c, tr1)
         \<and> search env self dn flt sc attrs cookie tr = Some y \<longrightarrow>
         (\<exists>evs. snd y = tr1 @ Search c (request dn flt sc attrs cookie) # evs))
   \<and> (\<forall>y. search env self dn flt sc attrs cookie tr = Some y \<longrightarrow>
         (\<exists>evs. snd y = tr @ evs \<and> bound_before_search None evs
                \<and> page_requests dn flt sc attrs evs))
   \<and> (\<forall>rs tr'. paged env self dn flt sc attrs cookie tr rs tr' \<longrightarrow>
         search env self dn flt sc attrs cookie tr = Some (Inr (concat (map response rs)), tr')
       \<and> (\<exists>evs. tr' = tr @ evs \<and> length (searches evs) = length rs
              \<and> bound_before_search None evs \<and> page_requests dn flt sc attrs evs))"
proof (intro conjI allI impI)
  show "request dn flt sc attrs cookie =
     \<lparr>search_base = dn, search_filter = flt, search_scope = sc, req_attributes = attrs,
      controls = [(''1.2.840.113556.1.4.801'', True,
                   sd_flags_value (OWNER_SECURITY_INFORMATION + GROUP_SECURITY_INFORMATION
                                   + DACL_SECURITY_INFORMATION))],
      paged_size = 5000, paged_cookie = cookie\<rparr>"
    by (rule request_fields)
  show "OWNER_SECURITY_INFORMATION + GROUP_SECURITY_INFORMATION + DACL_SECURITY_INFORMATION = 7"
    by (simp add: OWNER_SECURITY_INFORMATION_def GROUP_SECURITY_INFORMATION_def
        DACL_SECURITY_INFORMATION_def)
next
  fix e tr1
  assume "Authentication env self tr = (Inl e, tr1)"
  then show "search env self dn flt sc attrs cookie tr = Some (Inl e, tr1)"
    by (rule search_auth_fails)
next
  fix c tr1 e
  assume "Authentication env self tr = (Inr c, tr1)
         \<and> search_reply env tr1 c (request dn flt sc attrs cookie) = Inl e"
  then show "search env self dn flt sc attrs cookie tr =
           Some (Inl e, tr1 @ [Search c (request dn flt sc attrs cookie)])"
    by (intro search_reply_fails) simp_all
next
  fix c tr1 res e
  assume "Authentication env self tr = (Inr c, tr1)
         \<and> search_reply env tr1 c (request dn flt sc attrs cookie) = Inr res
         \<and> next_cookie res = Inl e"
  then show "search env self dn flt sc attrs cookie tr =
           Some (Inl e, tr1 @ [Search c (request dn flt sc attrs cookie)])"
    by (intro search_cookie_fails [where res = res]) simp_all
next
  fix c tr1 res ck
  assume "Authentication env self tr = (Inr c, tr1)
         \<and> search_reply env tr1 c (request dn flt sc attrs cookie) = Inr res
         \<and> next_cookie res = Inr ck \<and> \<not> truthy_str ck"
  then show "search env self dn flt sc attrs cookie tr =
           Some (Inr (response res), tr1 @ [Search c (request dn flt sc attrs cookie)])"
    by (intro search_last_page [where ck = ck]) simp_all
next
  fix c tr1 res ck
  assume "Authentication env self tr = (Inr c, tr1)
         \<and> search_reply env tr1 c (request dn flt sc attrs cookie) = Inr res
         \<and> next_cookie res = Inr ck \<and> truthy_str ck"
  then show "search env self dn flt sc attrs cookie tr =
           (case search env self dn flt sc attrs ck
                   (tr1 @ [Search c (request dn flt sc attrs cookie)]) of
              None \<Rightarrow> None
            | Some (Inl e, tr3) \<Rightarrow> Some (Inl e, tr3)
            | Some (Inr rest, tr3) \<Rightarrow> Some (Inr (response res @ rest), tr3))"
    by (intro search_next_page) simp_all
next
  fix c tr1 y
  assume "Authentication env self tr = (Inr c, tr1)
         \<and> search env self dn flt sc attrs cookie tr = Some y"
  then show "\<exists>evs. snd y = tr1 @ Search c (request dn flt sc attrs cookie) # evs"
    using search_first_request by blast
next
  fix y
  assume "search env self dn flt sc attrs cookie tr = Some y"
  then show "\<exists>evs. snd y = tr @ evs \<and> bound_before_search None evs
                \<and> page_requests dn flt sc attrs evs"
    by (rule search_trace)
next
  fix rs tr'
  assume p: "paged env self dn flt sc attrs cookie tr rs tr'"
  show "search env self dn flt sc attrs cookie tr = Some (Inr (concat (map response rs)), tr')"
    using paged_run [OF p] by blast
  show "\<exists>evs. tr' = tr @ evs \<and> length (searches evs) = length rs
              \<and> bound_before_search None evs \<and> page_requests dn flt sc attrs evs"
    using paged_run [OF p] by blast
qed

lemma two_pages_run:
  "search (scripted (\<lambda>c. success) two_pages) ntlm_user dn flt sc attrs None [] =
     Some (Inr (response page1 @ response page2),
           [Bind (auth_conn ntlm_user NTLM),
            Search (auth_conn ntlm_user NTLM) (request dn flt sc attrs None),
            Bind (auth_conn ntlm_user NTLM),
            Search (auth_conn ntlm_user NTLM) (request dn flt sc attrs (Some ''C1''))])"
proof -
  let ?env = "scripted (\<lambda>c. success) two_pages"
  let ?c = "auth_conn ntlm_user NTLM"
  let ?tr2 = "[Bind ?c, Search ?c (request dn flt sc attrs None)]"
  have a1: "Authentication ?env ntlm_user [] = (Inr ?c, [Bind ?c])"
    using Authentication_ntlm_success [of two_pages "[]"] by simp
  have a2: "Authentication ?env ntlm_user ?tr2 = (Inr ?c, ?tr2 @ [Bind ?c])"
    by (rule Authentication_ntlm_success)
  have second: "search ?env ntlm_user dn flt sc attrs (Some ''C1'') ?tr2 =
                Some (Inr (response page2),
                      (?tr2 @ [Bind ?c]) @ [Search ?c (request dn flt sc attrs (Some ''C1''))])"
    by (rule search_last_page [OF a2, where ck = None])
       (simp_all add: paging_defs)
  have "search ?env ntlm_user dn flt sc attrs None [] =
          (case search ?env ntlm_user dn flt sc attrs (Some ''C1'')
                  ([Bind ?c] @ [Search ?c (request dn flt sc attrs None)]) of
             None \<Rightarrow> None
           | Some (Inl e, tr3) \<Rightarrow> Some (Inl e, tr3)
           | Some (Inr rest, tr3) \<Rightarrow> Some (Inr (response page1 @ rest), tr3))"
    by (rule search_next_page [OF a1])
       (simp_all add: paging_defs)
  with second show ?thesis by simp
qed

lemma sd_flags_bytes:
  "sd_flags_value (OWNER_SECURITY_INFORMATION + GROUP_SECURITY_INFORMATION
                   + DACL_SECURITY_INFORMATION)
     = [CHR 0x30, CHR 0x03, CHR 0x02, CHR 0x01, CHR 0x07]"
  by (simp add: sd_flags_value_def OWNER_SECURITY_INFORMATION_def
      GROUP_SECURITY_INFORMATION_def DACL_SECURITY_INFORMATION_def char_of_eq_iff)

lemma two_pages_paged:
  "paged (scripted (\<lambda>c. success) two_pages) ntlm_user dn flt sc attrs None [] [page1, page2]
     [Bind (auth_conn ntlm_user NTLM),
      Search (auth_conn ntlm_user NTLM) (request dn flt sc attrs None),
      Bind (auth_conn ntlm_user NTLM),
      Search (auth_conn ntlm_user NTLM) (request dn flt sc attrs (Some ''C1''))]"
proof -
  let ?env = "scripted (\<lambda>c. success) two_pages"
  let ?c = "auth_conn ntlm_user NTLM"
  let ?tr2 = "[Bind ?c, Search ?c (request dn flt sc attrs None)]"
  have a1: "Authentication ?env ntlm_user [] = (Inr ?c, [Bind ?c])"
    using Authentication_ntlm_success [of two_pages "[]"] by simp
  have a2: "Authentication ?env ntlm_user ?tr2 = (Inr ?c, ?tr2 @ [Bind ?c])"
    by (rule Authentication_ntlm_success)
  have r1: "search_reply ?env [Bind ?c] ?c (request dn flt sc attrs None) = Inr page1"
    by (simp add: scripted_def two_pages_def request_def)
  have r2: "search_reply ?env (?tr2 @ [Bind ?c]) ?c (request dn flt sc attrs (Some ''C1'')) = Inr page2"
    by (simp add: scripted_def two_pages_def request_def)
  have c1: "next_cookie page1 = Inr (Some ''C1'')"
    by (simp add: next_cookie_def page1_def)
  have c2: "next_cookie page2 = Inr None"
    by (simp add: next_cookie_def page2_def)
  have p2: "paged ?env ntlm_user dn flt sc attrs (Some ''C1'') ([Bind ?c] @ [Search ?c (request dn flt sc attrs None)])
              [page2] ((?tr2 @ [Bind ?c]) @ [Search ?c (request dn flt sc attrs (Some ''C1''))])"
    using paged.last_page [OF a2 r2 c2] by simp
  show ?thesis
    using paged.next_page [OF a1 r1 c1 _ p2] by simp
qed

theorem search_round_trip_witness:
  "Authentication (scripted (\<lambda>c. rejected) no_entries) ntlm_user [] =
     (Inl (SystemExit 1), [Bind (auth_conn ntlm_user NTLM), LogError ''Invalid credentials !''])
   \<and> search (scripted (\<lambda>c. rejected) no_entries) ntlm_user ''DC=corp'' ''(cn=*)'' SUBTREE [''cn'']
        None [] =
       Some (Inl (SystemExit 1),
             [Bind (auth_conn ntlm_user NTLM), LogError ''Invalid credentials !''])
   \<and> search (scripted (\<lambda>c. success) failing_search) ntlm_user ''DC=corp'' ''(cn=*)'' SUBTREE [''cn'']
        None [] =
       Some (Inl (OtherException ''busy''),
             [Bind (auth_conn ntlm_user NTLM),
              Search (auth_conn ntlm_user NTLM) (request ''DC=corp'' ''(cn=*)'' SUBTREE [''cn''] None)])
   \<and> search (scripted (\<lambda>c. success) foreign_control) ntlm_user ''DC=corp'' ''(cn=*)'' SUBTREE [''cn'']
        None [] =
       Some (Inl KeyError,
             [Bind (auth_conn ntlm_user NTLM),
              Search (auth_conn ntlm_user NTLM) (request ''DC=corp'' ''(cn=*)'' SUBTREE [''cn''] None)])
   \<and> search (scripted (\<lambda>c. success) two_pages) ntlm_user ''DC=corp'' ''(cn=*)'' SUBTREE [''cn'']
        (Some ''C1'')
        [Bind (auth_conn ntlm_user NTLM),
         Search (auth_conn ntlm_user NTLM) (request ''DC=corp'' ''(cn=*)'' SUBTREE [''cn''] None)] =
       Some (Inr (response page2),
             [Bind (auth_conn ntlm_user NTLM),
              Search (auth_conn ntlm_user NTLM) (request ''DC=corp'' ''(cn=*)'' SUBTREE [''cn''] None),
              Bind (auth_conn ntlm_user NTLM),
              Search (auth_conn ntlm_user NTLM)
                (request ''DC=corp'' ''(cn=*)'' SUBTREE [''cn''] (Some ''C1''))])
   \<and> search (scripted (\<lambda>c. success) two_pages) ntlm_user ''DC=corp'' ''(cn=*)'' SUBTREE [''cn'']
        None [] =
       Some (Inr (response page1 @ response page2),
             [Bind (auth_conn ntlm_user NTLM),
              Search (auth_conn ntlm_user NTLM) (request ''DC=corp'' ''(cn=*)'' SUBTREE [''cn''] None),
              Bind (auth_conn ntlm_user NTLM),
              Search (auth_conn ntlm_user NTLM)
                (request ''DC=corp'' ''(cn=*)'' SUBTREE [''cn''] (Some ''C1''))])
   \<and> length (searches
        [Bind (auth_conn ntlm_user NTLM),
         Search (auth_conn ntlm_user NTLM) (request ''DC=corp'' ''(cn=*)'' SUBTREE [''cn''] None),
         Bind (auth_conn ntlm_user NTLM),
         Search (auth_conn ntlm_user NTLM)
           (request ''DC=corp'' ''(cn=*)'' SUBTREE [''cn''] (Some ''C1''))]) = 2
   \<and> bound_before_search None
        [Bind (auth_conn ntlm_user NTLM),
         Search (auth_conn ntlm_user NTLM) (request ''DC=corp'' ''(cn=*)'' SUBTREE [''cn''] None),
         Bind (auth_conn ntlm_user NTLM),
         Search (auth_conn ntlm_user NTLM)
           (request ''DC=corp'' ''(cn=*)'' SUBTREE [''cn''] (Some ''C1''))]
   \<and> page_requests ''DC=corp'' ''(cn=*)'' SUBTREE [''cn'']
        [Bind (auth_conn ntlm_user NTLM),
         Search (auth_conn ntlm_user NTLM) (request ''DC=corp'' ''(cn=*)'' SUBTREE [''cn''] None),
         Bind (auth_conn ntlm_user NTLM),
         Search (auth_conn ntlm_user NTLM)
           (request ''DC=corp'' ''(cn=*)'' SUBTREE [''cn''] (Some ''C1''))]
   \<and> paged_size (request ''DC=corp'' ''(cn=*)'' SUBTREE [''cn''] (Some ''C1'')) = 5000
   \<and> paged_cookie (request ''DC=corp'' ''(cn=*)'' SUBTREE [''cn''] (Some ''C1'')) = Some ''C1''
   \<and> controls (request ''DC=corp'' ''(cn=*)'' SUBTREE [''cn''] (Some ''C1'')) =
       [(''1.2.840.113556.1.4.801'', True, [CHR 0x30, CHR 0x03, CHR 0x02, CHR 0x01, CHR 0x07])]"
proof -
  let ?c = "auth_conn ntlm_user NTLM"
  let ?q = "request ''DC=corp'' ''(cn=*)'' SUBTREE [''cn'']"
  let ?tr2 = "[Bind ?c, Search ?c (?q None)]"
  let ?tr4 = "[Bind ?c, Search ?c (?q None), Bind ?c, Search ?c (?q (Some ''C1''))]"
  note t = search_round_trip [where self = ntlm_user and dn = "''DC=corp''" and flt = "''(cn=*)''"
      and sc = SUBTREE and attrs = "[''cn'']"]
  note fields = t [THEN conjunct1]
  note auth_fails = t [THEN conjunct2, THEN conjunct2, THEN conjunct1, rule_format]
  note reply_fails = t [THEN conjunct2, THEN conjunct2, THEN conjunct2, THEN conjunct1, rule_format]
  note cookie_fails = t [THEN conjunct2, THEN conjunct2, THEN conjunct2, THEN conjunct2,
      THEN conjunct1, rule_format]
  note last = t [THEN conjunct2, THEN conjunct2, THEN conjunct2, THEN conjunct2, THEN conjunct2,
      THEN conjunct1, rule_format]
  note more = t [THEN conjunct2, THEN conjunct2, THEN conjunct2, THEN conjunct2, THEN conjunct2,
      THEN conjunct2, THEN conjunct1, rule_format]
  note run = t [THEN conjunct2, THEN conjunct2, THEN conjunct2, THEN conjunct2, THEN conjunct2,
      THEN conjunct2, THEN conjunct2, THEN conjunct2, THEN conjunct2, rule_format]
  have a0: "Authentication (scripted (\<lambda>c. rejected) no_entries) ntlm_user [] =
     (Inl (SystemExit 1), [Bind ?c, LogError ''Invalid credentials !''])"
    by (simp add: Authentication_def bind_by_mechanism_ntlm scripted_def rejected_def
        ntlm_user_def sample_ldap_def sample_creds_def)
  have w1: "search (scripted (\<lambda>c. rejected) no_entries) ntlm_user ''DC=corp'' ''(cn=*)'' SUBTREE
              [''cn''] None [] = Some (Inl (SystemExit 1), [Bind ?c, LogError ''Invalid credentials !''])"
    by (rule auth_fails [OF a0])
  have a1: "Authentication (scripted (\<lambda>c. success) s) ntlm_user [] = (Inr ?c, [Bind ?c])" for s
    using Authentication_ntlm_success [of s "[]"] by simp
  have w2: "search (scripted (\<lambda>c. success) failing_search) ntlm_user ''DC=corp'' ''(cn=*)'' SUBTREE
              [''cn''] None [] = Some (Inl (OtherException ''busy''), [Bind ?c] @ [Search ?c (?q None)])"
    by (rule reply_fails) (simp add: a1, simp add: scripted_def failing_search_def)
  have w3: "search (scripted (\<lambda>c. success) foreign_control) ntlm_user ''DC=corp'' ''(cn=*)'' SUBTREE
              [''cn''] None [] = Some (Inl KeyError, [Bind ?c] @ [Search ?c (?q None)])"
    by (rule cookie_fails
          [where res = "\<lparr>response = [], result_controls = Some [(''1.2.840.113556.1.4.473'', [])]\<rparr>"])
       (simp add: a1, simp add: scripted_def foreign_control_def next_cookie_def)
  have a2: "Authentication (scripted (\<lambda>c. success) two_pages) ntlm_user ?tr2 = (Inr ?c, ?tr2 @ [Bind ?c])"
    by (rule Authentication_ntlm_success)
  have w4: "search (scripted (\<lambda>c. success) two_pages) ntlm_user ''DC=corp'' ''(cn=*)'' SUBTREE
              [''cn''] (Some ''C1'') ?tr2 =
            Some (Inr (response page2), (?tr2 @ [Bind ?c]) @ [Search ?c (?q (Some ''C1''))])"
    by (rule last [where res = page2 and ck = None])
       (simp add: a2, simp add: scripted_def two_pages_def request_def next_cookie_def page2_def)
  have w5: "search (scripted (\<lambda>c. success) two_pages) ntlm_user ''DC=corp'' ''(cn=*)'' SUBTREE
              [''cn''] None [] =
            (case search (scripted (\<lambda>c. success) two_pages) ntlm_user ''DC=corp'' ''(cn=*)'' SUBTREE
                    [''cn''] (Some ''C1'') ([Bind ?c] @ [Search ?c (?q None)]) of
               None \<Rightarrow> None
             | Some (Inl e, tr3) \<Rightarrow> Some (Inl e, tr3)
             | Some (Inr rest, tr3) \<Rightarrow> Some (Inr (response page1 @ rest), tr3))"
    by (rule more [where res = page1])
       (simp add: a1, simp add: scripted_def two_pages_def request_def next_cookie_def page1_def)
  have w6: "search (scripted (\<lambda>c. success) two_pages) ntlm_user ''DC=corp'' ''(cn=*)'' SUBTREE
              [''cn''] None [] = Some (Inr (concat (map response [page1, page2])), ?tr4)
          \<and> (\<exists>evs. ?tr4 = [] @ evs \<and> length (searches evs) = length [page1, page2]
                 \<and> bound_before_search None evs
                 \<and> page_requests ''DC=corp'' ''(cn=*)'' SUBTREE [''cn''] evs)"
    by (rule run [OF two_pages_paged])
  then have w7: "length (searches ?tr4) = 2 \<and> bound_before_search None ?tr4
                 \<and> page_requests ''DC=corp'' ''(cn=*)'' SUBTREE [''cn''] ?tr4"
    by simp
  have f: "paged_size (?q (Some ''C1'')) = 5000 \<and> paged_cookie (?q (Some ''C1'')) = Some ''C1''
     \<and> controls (?q (Some ''C1'')) =
         [(''1.2.840.113556.1.4.801'', True, [CHR 0x30, CHR 0x03, CHR 0x02, CHR 0x01, CHR 0x07])]"
    unfolding fields [of "Some ''C1''"] by (simp add: sd_flags_bytes)
  have w4': "search (scripted (\<lambda>c. success) two_pages) ntlm_user ''DC=corp'' ''(cn=*)'' SUBTREE
              [''cn''] (Some ''C1'') ?tr2 = Some (Inr (response page2), ?tr4)"
    using w4 by simp
  have w5': "search (scripted (\<lambda>c. success) two_pages) ntlm_user ''DC=corp'' ''(cn=*)'' SUBTREE
              [''cn''] None [] = Some (Inr (response page1 @ response page2), ?tr4)"
    using w5 w4' by simp
  from a0 w1 w2 w3 w4' w5' w7 f show ?thesis
    by (intro conjI) simp_all
qed

subsection \<open>Directory queries\<close>







lemma Authentication_success:
  "\<not> doKerberos (credentials self) \<Longrightarrow> \<not> doSimpleBind (credentials self) \<Longrightarrow>
     Authentication (scripted (\<lambda>c. success) s) self tr =
       (Inr (auth_conn self NTLM), tr @ [Bind (auth_conn self NTLM)])"
  by (simp add: Authentication_def bind_by_mechanism_ntlm scripted_def success_def)

lemma one_page_run:
  assumes "\<not> doKerberos (credentials self)" "\<not> doSimpleBind (credentials self)"
  shows "search (scripted (\<lambda>c. success) (one_page es)) self dn flt sc attrs cookie tr =
     Some (Inr es, tr @ [Bind (auth_conn self NTLM),
                         Search (auth_conn self NTLM) (request dn flt sc attrs cookie)])"
  using search_last_page [OF Authentication_success [OF assms],
      of "one_page es" tr dn flt sc attrs cookie "\<lparr>response = es, result_controls = None\<rparr>" None]
  by (simp add: scripted_def one_page_def next_cookie_def)




lemma assign_empty: "assign_namingContexts self [] = (Inl IndexError, self)"
  by (simp add: assign_namingContexts_def index_def)

lemma assign_short:
  assumes "attributes e0 ''namingContexts'' = Some ncs" "length ncs < 5"
  shows "fst (assign_namingContexts self (e0 # rest)) = Inl IndexError"
proof -
  consider "length ncs = 0" | "length ncs = 1" | "length ncs = 2" | "length ncs = 3"
    | "length ncs = 4"
    using assms(2) by linarith
  then show ?thesis
    by cases (simp_all add: assign_namingContexts_def index_def getitem_def assms(1) Let_def)
qed

lemma assign_five:
  assumes "attributes e0 ''namingContexts'' = Some ncs" "5 \<le> length ncs"
  shows "assign_namingContexts self (e0 # rest) =
     (Inr (), self\<lparr>namingContexts := Some ncs,
          defaultNamingContext := Some (ncs ! 0),
          configurationNamingContext := Some (ncs ! 1),
          schemaNamingContext := Some (ncs ! 2),
          domainDnsZonesNamingContext := Some (ncs ! 3),
          forestDnsZonesNamingContext := Some (ncs ! 4)\<rparr>)"
  using assms by (auto simp: assign_namingContexts_def index_def getitem_def Let_def)

lemma getNamingContexts_assign:
  assumes "search env self [] ''(objectClass=*)'' BASE [''namingContexts''] None tr = Some (Inr resp, tr1)"
  shows "getNamingContexts env self tr =
           Some (fst (assign_namingContexts self resp), snd (assign_namingContexts self resp), tr1)"
  using assms by (simp add: getNamingContexts_def split: prod.splits)

lemma checkAuthentication_step:
  assumes "method_port (target self) = Some p"
    and "Authentication env self (tr @ [trying self p]) = (Inr c, tra)"
    and "getNamingContexts env self tra = Some (r, self', tr1)"
  shows "checkAuthentication env self tr =
     (if r = Inl IndexError
      then Some (Inl (SystemExit 1), self', tr1 @ [LogError ''Invalid credentials !''])
      else case r of
             Inl e \<Rightarrow> Some (Inl e, self', tr1)
           | Inr u \<Rightarrow> Some (Inr (), self', tr1 @ [LogDebug ''Authentication success !'']))"
  using assms by (simp add: checkAuthentication_def trying_def Let_def)

lemma search_Inr_request:
  assumes "search env self dn flt sc attrs cookie tr = Some (Inr resp, tr1)"
  shows "\<exists>c tra evs. Authentication env self tr = (Inr c, tra)
           \<and> tr1 = tra @ Search c (request dn flt sc attrs cookie) # evs"
proof -
  obtain ra tra where a: "Authentication env self tr = (ra, tra)"
    by (cases "Authentication env self tr")
  show ?thesis
  proof (cases ra)
    case (Inl e)
    with a search_auth_fails [of env self tr e tra dn flt sc attrs cookie] assms
    show ?thesis by simp
  next
    case (Inr c)
    with a search_first_request [of env self tr c tra dn flt sc attrs cookie "(Inr resp, tr1)"] assms
    show ?thesis by simp
  qed
qed


text \<open>
  C8. \<open>getNamingContexts\<close> sends a search with base scope on the empty distinguished name for
  the attribute \<open>namingContexts\<close>. With at least five values in the first entry of the
  response it stores the values 0 to 4 as the default, configuration, schema,
  domain-DNS-zones and forest-DNS-zones naming contexts, and \<open>__checkAuthentication\<close> reports
  success. With an empty response, or fewer than five values, an \<open>IndexError\<close> is raised, which
  \<open>__checkAuthentication\<close> turns into the message \<open>Invalid credentials !\<close> and exit status 1.
\<close>

theorem naming_context_discovery:
  assumes "method_port (target self) = Some p"
    and "Authentication env self (tr @ [trying self p]) = (Inr c, tra)"
    and "search env self [] ''(objectClass=*)'' BASE [''namingContexts''] None tra
           = Some (Inr resp, tr1)"
  shows "(\<exists>c' tra' evs. Authentication env self tra = (Inr c', tra')
           \<and> tr1 = tra' @ Search c' (request [] ''(objectClass=*)'' BASE [''namingContexts''] None) # evs)
       \<and> (\<forall>e0 rest ncs.
             resp = e0 # rest \<and> attributes e0 ''namingContexts'' = Some ncs \<and> 5 \<le> length ncs \<longrightarrow>
             getNamingContexts env self tra =
               Some (Inr (),
                     self\<lparr>namingContexts := Some ncs,
                          defaultNamingContext := Some (ncs ! 0),
                          configurationNamingContext := Some (ncs ! 1),
                          schemaNamingContext := Some (ncs ! 2),
                          domainDnsZonesNamingContext := Some (ncs ! 3),
                          forestDnsZonesNamingContext := Some (ncs ! 4)\<rparr>, tr1)
           \<and> checkAuthentication env self tr =
               Some (Inr (),
                     self\<lparr>namingContexts := Some ncs,
                          defaultNamingContext := Some (ncs ! 0),
                          configurationNamingContext := Some (ncs ! 1),
                          schemaNamingContext := Some (ncs ! 2),
                          domainDnsZonesNamingContext := Some (ncs ! 3),
                          forestDnsZonesNamingContext := Some (ncs ! 4)\<rparr>,
                     tr1 @ [LogDebug ''Authentication success !'']))
       \<and> (resp = [] \<longrightarrow>
             getNamingContexts env self tra = Some (Inl IndexError, self, tr1)
           \<and> checkAuthentication env self tr =
               Some (Inl (SystemExit 1), self, tr1 @ [LogError ''Invalid credentials !'']))
       \<and> (\<forall>e0 rest ncs.
             resp = e0 # rest \<and> attributes e0 ''namingContexts'' = Some ncs \<and> length ncs < 5 \<longrightarrow>
             (\<exists>self'. getNamingContexts env self tra = Some (Inl IndexError, self', tr1)
                \<and> checkAuthentication env self tr =
                    Some (Inl (SystemExit 1), self', tr1 @ [LogError ''Invalid credentials !''])))"
proof (intro conjI allI impI)
  show "\<exists>c' tra' evs. Authentication env self tra = (Inr c', tra')
           \<and> tr1 = tra' @ Search c' (request [] ''(objectClass=*)'' BASE [''namingContexts''] None) # evs"
    using assms(3) by (rule search_Inr_request)
next
  fix e0 rest ncs
  assume h: "resp = e0 # rest \<and> attributes e0 ''namingContexts'' = Some ncs \<and> 5 \<le> length ncs"
  let ?self' = "self\<lparr>namingContexts := Some ncs,
                          defaultNamingContext := Some (ncs ! 0),
                          configurationNamingContext := Some (ncs ! 1),
                          schemaNamingContext := Some (ncs ! 2),
                          domainDnsZonesNamingContext := Some (ncs ! 3),
                          forestDnsZonesNamingContext := Some (ncs ! 4)\<rparr>"
  have a: "assign_namingContexts self resp = (Inr (), ?self')"
    using h assign_five by simp
  show g: "getNamingContexts env self tra = Some (Inr (), ?self', tr1)"
    using getNamingContexts_assign [OF assms(3)] a by simp
  show "checkAuthentication env self tr =
          Some (Inr (), ?self', tr1 @ [LogDebug ''Authentication success !''])"
    using checkAuthentication_step [OF assms(1,2) g] by simp
next
  assume h: "resp = []"
  show g: "getNamingContexts env self tra = Some (Inl IndexError, self, tr1)"
    using getNamingContexts_assign [OF assms(3)] h by (simp add: assign_empty)
  show "checkAuthentication env self tr =
          Some (Inl (SystemExit 1), self, tr1 @ [LogError ''Invalid credentials !''])"
    using checkAuthentication_step [OF assms(1,2) g] by simp
next
  fix e0 rest ncs
  assume h: "resp = e0 # rest \<and> attributes e0 ''namingContexts'' = Some ncs \<and> length ncs < 5"
  then have f: "fst (assign_namingContexts self resp) = Inl IndexError"
    using assign_short by simp
  have g: "getNamingContexts env self tra =
             Some (Inl IndexError, snd (assign_namingContexts self resp), tr1)"
    using getNamingContexts_assign [OF assms(3)] f by simp
  have "checkAuthentication env self tr =
          Some (Inl (SystemExit 1), snd (assign_namingContexts self resp),
                tr1 @ [LogError ''Invalid credentials !''])"
    using checkAuthentication_step [OF assms(1,2) g] by simp
  with g show "\<exists>self'. getNamingContexts env self tra = Some (Inl IndexError, self', tr1)
                \<and> checkAuthentication env self tr =
                    Some (Inl (SystemExit 1), self', tr1 @ [LogError ''Invalid credentials !''])"
    by blast
qed

lemma ntlm_user_facts:
  "\<not> doKerberos (credentials ntlm_user) \<and> \<not> doSimpleBind (credentials ntlm_user)
   \<and> method_port (target ntlm_user) = Some 636
   \<and> trying ntlm_user 636 = LogDebug ''Trying to connect to dc01:636''"
  by (simp add: ntlm_user_def sample_ldap_def sample_creds_def negotiated_target_def trying_def
      fmt_d_def digits.simps char_of_eq_iff)

lemma probe_run:
  "Authentication (scripted (\<lambda>c. success) (one_page es)) ntlm_user ([] @ [trying ntlm_user 636]) =
     (Inr (auth_conn ntlm_user NTLM), [trying ntlm_user 636, Bind (auth_conn ntlm_user NTLM)])
   \<and> search (scripted (\<lambda>c. success) (one_page es)) ntlm_user [] ''(objectClass=*)'' BASE
        [''namingContexts''] None [trying ntlm_user 636, Bind (auth_conn ntlm_user NTLM)] =
       Some (Inr es,
             [trying ntlm_user 636, Bind (auth_conn ntlm_user NTLM),
              Bind (auth_conn ntlm_user NTLM),
              Search (auth_conn ntlm_user NTLM)
                (request [] ''(objectClass=*)'' BASE [''namingContexts''] None)])"
  using ntlm_user_facts by (simp add: Authentication_success one_page_run)

theorem naming_context_discovery_witness:
  "method_port (target ntlm_user) = Some 636
   \<and> checkAuthentication (scripted (\<lambda>c. success) (one_page [root_entry five_contexts])) ntlm_user [] =
       Some (Inr (), known_domain,
             [LogDebug ''Trying to connect to dc01:636'', Bind (auth_conn ntlm_user NTLM),
              Bind (auth_conn ntlm_user NTLM),
              Search (auth_conn ntlm_user NTLM)
                (request [] ''(objectClass=*)'' BASE [''namingContexts''] None),
              LogDebug ''Authentication success !''])
   \<and> defaultNamingContext known_domain = Some ''DC=corp''
   \<and> configurationNamingContext known_domain = Some ''CN=Configuration,DC=corp''
   \<and> schemaNamingContext known_domain = Some ''CN=Schema,CN=Configuration,DC=corp''
   \<and> domainDnsZonesNamingContext known_domain = Some ''DC=DomainDnsZones,DC=corp''
   \<and> forestDnsZonesNamingContext known_domain = Some ''DC=ForestDnsZones,DC=corp''
   \<and> checkAuthentication (scripted (\<lambda>c. success) (one_page [])) ntlm_user [] =
       Some (Inl (SystemExit 1), ntlm_user,
             [LogDebug ''Trying to connect to dc01:636'', Bind (auth_conn ntlm_user NTLM),
              Bind (auth_conn ntlm_user NTLM),
              Search (auth_conn ntlm_user NTLM)
                (request [] ''(objectClass=*)'' BASE [''namingContexts''] None),
              LogError ''Invalid credentials !''])
   \<and> map_option fst
        (checkAuthentication (scripted (\<lambda>c. success) (one_page [root_entry three_contexts]))
           ntlm_user []) = Some (Inl (SystemExit 1))
   \<and> map_option (snd \<circ> snd)
        (checkAuthentication (scripted (\<lambda>c. success) (one_page [root_entry three_contexts]))
           ntlm_user []) =
       Some [LogDebug ''Trying to connect to dc01:636'', Bind (auth_conn ntlm_user NTLM),
             Bind (auth_conn ntlm_user NTLM),
             Search (auth_conn ntlm_user NTLM)
               (request [] ''(objectClass=*)'' BASE [''namingContexts''] None),
             LogError ''Invalid credentials !'']"
proof -
  note f = ntlm_user_facts
  have mp: "method_port (target ntlm_user) = Some 636" using f by simp
  note five = naming_context_discovery
    [OF mp probe_run [of "[root_entry five_contexts]", THEN conjunct1]
        probe_run [of "[root_entry five_contexts]", THEN conjunct2]]
  note none = naming_context_discovery
    [OF mp probe_run [of "[]", THEN conjunct1] probe_run [of "[]", THEN conjunct2]]
  note three = naming_context_discovery
    [OF mp probe_run [of "[root_entry three_contexts]", THEN conjunct1]
        probe_run [of "[root_entry three_contexts]", THEN conjunct2]]
  have a5: "attributes (root_entry five_contexts) ''namingContexts'' = Some five_contexts
            \<and> 5 \<le> length five_contexts"
    by (simp add: root_entry_def five_contexts_def)
  have a3: "attributes (root_entry three_contexts) ''namingContexts'' = Some three_contexts
            \<and> length three_contexts < 5"
    by (simp add: root_entry_def three_contexts_def)
  have r5: "checkAuthentication (scripted (\<lambda>c. success) (one_page [root_entry five_contexts]))
              ntlm_user [] =
            Some (Inr (), with_namingContexts ntlm_user five_contexts,
                  [trying ntlm_user 636, Bind (auth_conn ntlm_user NTLM),
                   Bind (auth_conn ntlm_user NTLM),
                   Search (auth_conn ntlm_user NTLM)
                     (request [] ''(objectClass=*)'' BASE [''namingContexts''] None)]
                  @ [LogDebug ''Authentication success !''])"
    unfolding with_namingContexts_def using five a5 by blast
  have r0: "checkAuthentication (scripted (\<lambda>c. success) (one_page [])) ntlm_user [] =
            Some (Inl (SystemExit 1), ntlm_user,
                  [trying ntlm_user 636, Bind (auth_conn ntlm_user NTLM),
                   Bind (auth_conn ntlm_user NTLM),
                   Search (auth_conn ntlm_user NTLM)
                     (request [] ''(objectClass=*)'' BASE [''namingContexts''] None)]
                  @ [LogError ''Invalid credentials !''])"
    using none by blast
  have r3: "\<exists>self'. checkAuthentication
              (scripted (\<lambda>c. success) (one_page [root_entry three_contexts])) ntlm_user [] =
            Some (Inl (SystemExit 1), self',
                  [trying ntlm_user 636, Bind (auth_conn ntlm_user NTLM),
                   Bind (auth_conn ntlm_user NTLM),
                   Search (auth_conn ntlm_user NTLM)
                     (request [] ''(objectClass=*)'' BASE [''namingContexts''] None)]
                  @ [LogError ''Invalid credentials !''])"
    using three a3 by blast
  have k: "defaultNamingContext known_domain = Some ''DC=corp''
   \<and> configurationNamingContext known_domain = Some ''CN=Configuration,DC=corp''
   \<and> schemaNamingContext known_domain = Some ''CN=Schema,CN=Configuration,DC=corp''
   \<and> domainDnsZonesNamingContext known_domain = Some ''DC=DomainDnsZones,DC=corp''
   \<and> forestDnsZonesNamingContext known_domain = Some ''DC=ForestDnsZones,DC=corp''"
    by (simp add: known_domain_def with_namingContexts_def five_contexts_def)
  from r3 obtain self' where r3': "checkAuthentication
              (scripted (\<lambda>c. success) (one_page [root_entry three_contexts])) ntlm_user [] =
            Some (Inl (SystemExit 1), self',
                  [trying ntlm_user 636, Bind (auth_conn ntlm_user NTLM),
                   Bind (auth_conn ntlm_user NTLM),
                   Search (auth_conn ntlm_user NTLM)
                     (request [] ''(objectClass=*)'' BASE [''namingContexts''] None)]
                  @ [LogError ''Invalid credentials !''])"
    by blast
  show ?thesis
    using mp k f by (simp add: r5 r0 r3' known_domain_def)
qed

end
